theory Spec2Isabelle
  imports Main "HOL-Library.AList" "HOL-Library.Sublist"
begin

section \<open>Data model of pytracking\<close>

text \<open>
  Python \<open>str\<close> and \<open>bytes\<close> values are both modelled as \<open>string\<close> (a list of
  8-bit characters); the two synonyms below only document which of the two a
  function of the source handles. JSON values are the values \<open>json.loads\<close>
  returns, floats left out. A Python \<open>dict\<close> with string keys is an association
  list in insertion order: \<open>d[k] = v\<close> is \<open>AList.update k v d\<close> (an existing key
  keeps its place, a new key goes last), and \<open>d.get(k)\<close> is \<open>map_of d k\<close>.
\<close>

type_synonym pystr = string
type_synonym pybytes = string

datatype json =
    JNull
  | JBool bool
  | JInt int
  | JStr pystr
  | JList "json list"
  | JObj "(pystr \<times> json) list"

type_synonym pydict = "(pystr \<times> json) list"

text \<open>
  The exceptions that the code of \<open>tracking.py\<close> lets escape to its caller. The
  source defines no exception class and catches nothing: what its callees raise
  is what the caller sees. \<open>NotModelled\<close> is not an exception: it marks a run
  that leaves what this model represents (a decoded payload that makes
  \<open>dict.update\<close> store a key that is not a string, an override that the record
  of a configuration cannot hold, a call of a library outside the part that
  the reference instance covers).
\<close>

datatype error =
    TypeError
  | ValueError
  | AttributeError
  | LookupError
  | UnicodeError
  | BinasciiError
  | InvalidToken
  | JSONDecodeError
  | NotModelled

text \<open>\<open>d.update(e)\<close>: the items of \<open>e\<close> are stored into \<open>d\<close> one after the other.\<close>

definition dict_update :: "pydict \<Rightarrow> pydict \<Rightarrow> pydict" where
  "dict_update d e = fold (\<lambda>(k, v) acc. AList.update k v acc) e d"

text \<open>Truthiness of an optional string and of an optional dict: \<open>None\<close> and the
  empty value are false.\<close>

definition truthy_str :: "pystr option \<Rightarrow> bool" where
  "truthy_str s = (case s of None \<Rightarrow> False | Some x \<Rightarrow> x \<noteq> [])"

definition truthy_dict :: "pydict option \<Rightarrow> bool" where
  "truthy_dict d = (case d of None \<Rightarrow> False | Some x \<Rightarrow> x \<noteq> [])"

definition startswith :: "pystr \<Rightarrow> pystr \<Rightarrow> bool" where
  "startswith s p = prefix p s"

text \<open>
  A \<open>Fernet\<close> object: the handle \<open>'k\<close> that the cipher library built from the key
  material, together with the identity of the Python object that holds it.
\<close>

record 'k fernet_obj =
  obj_id :: nat
  handle :: 'k

text \<open>The attributes of a \<open>Configuration\<close> instance, as \<open>__init__\<close> sets them.\<close>

record 'k configuration =
  webhook_url :: "pystr option"
  webhook_timeout_seconds :: int
  include_webhook_url :: bool
  base_open_tracking_url :: "pystr option"
  base_click_tracking_url :: "pystr option"
  default_metadata :: "pydict option"
  include_default_metadata :: bool
  encryption_bytestring_key :: "pystr option"
  encoding :: pystr
  kwargs :: pydict
  encryption_key :: "'k fernet_obj option"
  append_slash :: bool
  pixel_position :: pystr

text \<open>
  A \<open>TrackingResult\<close>. Its \<open>tracked_url\<close> and \<open>webhook_url\<close> hold whatever the
  decoded payload holds under these keys, so they are JSON values; Python's
  \<open>None\<close> is \<open>JNull\<close>.
\<close>

record tracking_result =
  is_open_tracking :: bool
  is_click_tracking :: bool
  tracked_url :: json
  result_webhook_url :: json
  metadata :: pydict
  request_data :: "pydict option"
  timestamp :: int

section \<open>Building the embedded payload\<close>

text \<open>\<open>Configuration.get_data_to_embed\<close> (tracking.py, lines 122 to 152).\<close>

definition get_data_to_embed ::
  "'k configuration \<Rightarrow> pystr option \<Rightarrow> pydict option \<Rightarrow> pydict" where
  "get_data_to_embed c url_to_track extra_metadata =
     (let data0 = [];
          data1 = (if truthy_str url_to_track
                   then AList.update ''url'' (JStr (the url_to_track)) data0 else data0);
          md0 = [];
          md1 = (if include_default_metadata c \<and> truthy_dict (default_metadata c)
                 then dict_update md0 (the (default_metadata c)) else md0);
          md2 = (if truthy_dict extra_metadata
                 then dict_update md1 (the extra_metadata) else md1);
          data2 = (if md2 \<noteq> [] then AList.update ''metadata'' (JObj md2) data1 else data1);
          data3 = (if include_webhook_url c \<and> truthy_str (webhook_url c)
                   then AList.update ''webhook'' (JStr (the (webhook_url c))) data2
                   else data2)
      in data3)"

section \<open>Extracting the encoded path from a tracking URL\<close>

text \<open>
  \<open>Configuration.get_click_tracking_url_path\<close> and
  \<open>Configuration.get_open_tracking_url_path\<close> (lines 293 to 317): the slice
  \<open>url[len(base):]\<close>. \<open>len(None)\<close> raises \<open>TypeError\<close>.
\<close>

definition get_click_tracking_url_path :: "'k configuration \<Rightarrow> pystr \<Rightarrow> error + pystr" where
  "get_click_tracking_url_path c url =
     (case base_click_tracking_url c of
        None \<Rightarrow> Inl TypeError
      | Some b \<Rightarrow> Inr (drop (length b) url))"

definition get_open_tracking_url_path :: "'k configuration \<Rightarrow> pystr \<Rightarrow> error + pystr" where
  "get_open_tracking_url_path c url =
     (case base_open_tracking_url c of
        None \<Rightarrow> Inl TypeError
      | Some b \<Rightarrow> Inr (drop (length b) url))"

section \<open>The link filter of the HTML adapter\<close>

text \<open>\<open>_valid_scheme\<close> and \<open>_valid_link\<close> (html.py, lines 87 to 96). The
  configuration argument is optional in the source.\<close>

definition valid_scheme :: "pystr list" where
  "valid_scheme = [''http://'', ''https://'', ''//'']"

definition valid_link :: "pystr \<Rightarrow> 'k configuration option \<Rightarrow> bool" where
  "valid_link link configuration =
     (let is_valid = list_ex (\<lambda>scheme. startswith link scheme) valid_scheme
      in case configuration of
           None \<Rightarrow> is_valid
         | Some c \<Rightarrow>
             if truthy_str (base_click_tracking_url c)
             then is_valid \<and> \<not> startswith link (the (base_click_tracking_url c))
             else is_valid)"

section \<open>The libraries the code calls\<close>

subsection \<open>URL-safe base64 of the standard library\<close>

text \<open>
  \<open>base64.urlsafe_b64encode\<close>: RFC 4648 with the alphabet \<open>A-Z a-z 0-9 - _\<close>
  and \<open>=\<close> padding.
\<close>

definition b64_alphabet :: "char list" where
  "b64_alphabet =
     ''ABCDEFGHIJKLMNOPQRSTUVWXYZabcdefghijklmnopqrstuvwxyz0123456789-_''"

definition b64_char :: "nat \<Rightarrow> char" where
  "b64_char n = b64_alphabet ! (n mod 64)"

fun urlsafe_b64encode :: "pybytes \<Rightarrow> pybytes" where
  "urlsafe_b64encode [] = []"
| "urlsafe_b64encode [a] =
     (let x = (of_char a :: nat)
      in [b64_char (x div 4), b64_char ((x mod 4) * 16), CHR ''='', CHR ''=''])"
| "urlsafe_b64encode [a, b] =
     (let x = (of_char a :: nat); y = (of_char b :: nat)
      in [b64_char (x div 4), b64_char ((x mod 4) * 16 + y div 16),
          b64_char ((y mod 16) * 4), CHR ''=''])"
| "urlsafe_b64encode (a # b # c # rest) =
     (let x = (of_char a :: nat); y = (of_char b :: nat); z = (of_char c :: nat)
      in [b64_char (x div 4), b64_char ((x mod 4) * 16 + y div 16),
          b64_char ((y mod 16) * 4 + z div 64), b64_char (z mod 64)]
         @ urlsafe_b64encode rest)"

text \<open>
  \<open>base64.urlsafe_b64decode\<close> translates \<open>-\<close> to \<open>+\<close> and \<open>_\<close> to \<open>/\<close> and
  calls \<open>binascii.a2b_base64\<close> in its default, non-strict mode. \<open>b64_value\<close> is
  the value of a character after that translation, so both alphabets are read.
\<close>

definition b64_value :: "char \<Rightarrow> nat option" where
  "b64_value c =
     (let n = (of_char c :: nat) in
      if 65 \<le> n \<and> n \<le> 90 then Some (n - 65)
      else if 97 \<le> n \<and> n \<le> 122 then Some (n - 71)
      else if 48 \<le> n \<and> n \<le> 57 then Some (n + 4)
      else if c = CHR ''+'' \<or> c = CHR ''-'' then Some 62
      else if c = CHR ''/'' \<or> c = CHR ''_'' then Some 63
      else None)"

text \<open>
  The loop of \<open>a2b_base64\<close>: \<open>q\<close> is the position in the current group of four
  characters, \<open>l\<close> the bits left over from the previous character, \<open>p\<close> the count
  of padding characters seen since the last data character, \<open>out\<close> the bytes
  written so far, in reverse. A character outside the alphabet is skipped; a
  padding sequence that completes a group ends the decoding, whatever follows;
  an incomplete group at the end of the input raises \<open>binascii.Error\<close>.
\<close>

fun a2b_base64 :: "nat \<Rightarrow> nat \<Rightarrow> nat \<Rightarrow> pybytes \<Rightarrow> pybytes \<Rightarrow> error + pybytes" where
  "a2b_base64 q l p out [] = (if q \<noteq> 0 then Inl BinasciiError else Inr (rev out))"
| "a2b_base64 q l p out (c # cs) =
     (if c = CHR ''='' then
        (if q \<ge> 2 \<and> q + (p + 1) \<ge> 4 then Inr (rev out)
         else a2b_base64 q l (if q \<ge> 2 then p + 1 else p) out cs)
      else
        (case b64_value c of
           None \<Rightarrow> a2b_base64 q l p out cs
         | Some v \<Rightarrow>
             if q = 0 then a2b_base64 1 v 0 out cs
             else if q = 1 then a2b_base64 2 (v mod 16) 0 (char_of (l * 4 + v div 16) # out) cs
             else if q = 2 then a2b_base64 3 (v mod 4) 0 (char_of (l * 16 + v div 4) # out) cs
             else a2b_base64 0 0 0 (char_of (l * 64 + v) # out) cs))"

definition urlsafe_b64decode :: "pybytes \<Rightarrow> error + pybytes" where
  "urlsafe_b64decode s = a2b_base64 0 0 0 [] s"

subsection \<open>JSON, text codecs, URL joining and the Fernet cipher\<close>

text \<open>
  These are not code of the repository, and the source fixes neither the codec
  (\<open>encoding\<close> is any codec name) nor the cipher's internals. They are taken as
  parameters:
  \<^item> \<open>json_dumps\<close>, \<open>json_loads\<close>: \<open>json.dumps\<close> and \<open>json.loads\<close>;
  \<^item> \<open>str_encode enc s\<close>, \<open>bytes_decode enc b\<close>: \<open>s.encode(enc)\<close> and \<open>b.decode(enc)\<close>;
  \<^item> \<open>urljoin\<close>: \<open>urllib.parse.urljoin\<close>, which raises \<open>ValueError\<close> on some
    malformed URLs;
  \<^item> \<open>Fernet key\<close>: the constructor of the cipher object, which rejects
    malformed key material;
  \<^item> \<open>fernet_encrypt k now iv data\<close>: \<open>Fernet.encrypt\<close>, which reads the clock and
    draws a random initialisation vector; both are arguments here;
  \<^item> \<open>fernet_decrypt k token\<close>: \<open>Fernet.decrypt\<close> without a time-to-live.
\<close>

record 'k pylib =
  json_dumps :: "json \<Rightarrow> pystr"
  json_loads :: "pystr \<Rightarrow> error + json"
  str_encode :: "pystr \<Rightarrow> pystr \<Rightarrow> error + pybytes"
  bytes_decode :: "pystr \<Rightarrow> pybytes \<Rightarrow> error + pystr"
  urljoin :: "pystr option \<Rightarrow> pystr \<Rightarrow> error + pystr"
  Fernet :: "pystr \<Rightarrow> error + 'k"
  fernet_encrypt :: "'k \<Rightarrow> int \<Rightarrow> pybytes \<Rightarrow> pybytes \<Rightarrow> pybytes"
  fernet_decrypt :: "'k \<Rightarrow> pybytes \<Rightarrow> error + pybytes"

section \<open>Configuration objects\<close>

text \<open>
  \<open>Configuration\<close> instances are mutable objects: \<open>cache_encryption_key\<close> and
  \<open>setattr\<close> assign to their attributes, and \<open>merge_with_kwargs\<close> works on a
  copy. The store maps the reference of every allocated instance to its
  attributes; \<open>next_obj\<close> is the next unused object identity, for instances and
  for \<open>Fernet\<close> objects alike.
\<close>

record 'k heap =
  objs :: "nat \<Rightarrow> 'k configuration option"
  next_obj :: nat

definition deref :: "'k heap \<Rightarrow> nat \<Rightarrow> 'k configuration" where
  "deref h r = the (objs h r)"

definition store :: "'k heap \<Rightarrow> nat \<Rightarrow> 'k configuration \<Rightarrow> 'k heap" where
  "store h r c = h\<lparr>objs := (objs h)(r \<mapsto> c)\<rparr>"

text \<open>\<open>Configuration.cache_encryption_key\<close> (lines 108 to 120).\<close>

definition cache_encryption_key :: "'k pylib \<Rightarrow> 'k heap \<Rightarrow> nat \<Rightarrow> error + 'k heap" where
  "cache_encryption_key L h self =
     (let c = deref h self in
      if truthy_str (encryption_bytestring_key c) then
        (case Fernet L (the (encryption_bytestring_key c)) of
           Inl e \<Rightarrow> Inl e
         | Inr k \<Rightarrow>
             Inr ((store h self (c\<lparr>encryption_key :=
                     Some \<lparr>obj_id = next_obj h, handle = k\<rparr>\<rparr>))
                   \<lparr>next_obj := Suc (next_obj h)\<rparr>))
      else Inr (store h self (c\<lparr>encryption_key := None\<rparr>)))"

text \<open>
  \<open>Configuration.__init__\<close> (lines 26 to 70): a new instance with the given
  attributes, \<open>encryption_key\<close> set to \<open>None\<close> and then derived.
  \<open>default_attributes\<close> are the defaults of the parameters.
\<close>

definition default_attributes :: "'k configuration" where
  "default_attributes =
     \<lparr>webhook_url = None, webhook_timeout_seconds = 5, include_webhook_url = False,
      base_open_tracking_url = None, base_click_tracking_url = None,
      default_metadata = None, include_default_metadata = False,
      encryption_bytestring_key = None, encoding = ''utf-8'', kwargs = [],
      encryption_key = None, append_slash = False, pixel_position = ''top''\<rparr>"

definition Configuration :: "'k pylib \<Rightarrow> 'k heap \<Rightarrow> 'k configuration \<Rightarrow> error + (nat \<times> 'k heap)" where
  "Configuration L h attrs =
     (let self = next_obj h;
          h1 = (store h self (attrs\<lparr>encryption_key := None\<rparr>))\<lparr>next_obj := Suc self\<rparr>
      in case cache_encryption_key L h1 self of
           Inl e \<Rightarrow> Inl e
         | Inr h2 \<Rightarrow> Inr (self, h2))"

text \<open>
  \<open>Configuration.__deepcopy__\<close> (lines 80 to 86): a fresh default instance
  receives a deep copy of every attribute but \<open>encryption_key\<close>. The attributes
  are values here, so a deep copy of one is the value itself.
\<close>

definition deepcopy :: "'k pylib \<Rightarrow> 'k heap \<Rightarrow> nat \<Rightarrow> error + (nat \<times> 'k heap)" where
  "deepcopy L h self =
     (case Configuration L h default_attributes of
        Inl e \<Rightarrow> Inl e
      | Inr (new_config, h1) \<Rightarrow>
          Inr (new_config,
               store h1 new_config
                 ((deref h1 self)\<lparr>encryption_key := encryption_key (deref h1 new_config)\<rparr>)))"

text \<open>
  The keyword arguments of the API functions. A \<open>dict\<close> of overrides is a list of
  entries: one constructor for each attribute of an instance, holding a value of
  the attribute's type, and \<open>Kw_other name value\<close> for any other entry.
\<close>

datatype 'k kwarg =
    Kw_webhook_url "pystr option"
  | Kw_webhook_timeout_seconds int
  | Kw_include_webhook_url bool
  | Kw_base_open_tracking_url "pystr option"
  | Kw_base_click_tracking_url "pystr option"
  | Kw_default_metadata "pydict option"
  | Kw_include_default_metadata bool
  | Kw_encryption_bytestring_key "pystr option"
  | Kw_encoding pystr
  | Kw_kwargs pydict
  | Kw_encryption_key "'k fernet_obj option"
  | Kw_append_slash bool
  | Kw_pixel_position pystr
  | Kw_other pystr json

text \<open>
  The names for which \<open>hasattr(new_configuration, key)\<close> holds: the attributes that
  \<open>__init__\<close> sets, the methods of the class, and what every object inherits
  (\<open>__class__\<close>, \<open>__dict__\<close>, \<open>__init__\<close>, \<open>__str__\<close>, ...), whose names all start
  with two underscores.
\<close>

definition attribute_names :: "pystr list" where
  "attribute_names =
     [''webhook_url'', ''webhook_timeout_seconds'', ''include_webhook_url'',
      ''base_open_tracking_url'', ''base_click_tracking_url'', ''default_metadata'',
      ''include_default_metadata'', ''encryption_bytestring_key'', ''encoding'',
      ''kwargs'', ''encryption_key'', ''append_slash'', ''pixel_position'']"

definition method_names :: "pystr list" where
  "method_names =
     [''merge_with_kwargs'', ''cache_encryption_key'', ''get_data_to_embed'',
      ''get_url_encoded_data_str'', ''get_open_tracking_url_from_data_str'',
      ''get_click_tracking_url_from_data_str'', ''get_open_tracking_url'',
      ''get_click_tracking_url'', ''get_tracking_result'',
      ''get_click_tracking_url_path'', ''get_open_tracking_url_path'']"

text \<open>
  An entry \<open>Kw_other name value\<close> whose name may be one of these is an assignment
  that the record of a configuration cannot hold (a method replaced by a value,
  an attribute set to a value of another type, \<open>__class__\<close> set to a value, which
  raises \<open>TypeError\<close>). Which of the names with two underscores exist depends on
  the version of Python, so all of them are counted.
\<close>

fun outside_model :: "'k kwarg \<Rightarrow> bool" where
  "outside_model (Kw_other name v) =
     (name \<in> set attribute_names \<or> name \<in> set method_names \<or> startswith name ''__'')"
| "outside_model kw = False"

text \<open>\<open>setattr(new_configuration, key, value)\<close> for a key that is an attribute; for
  any other key of an entry inside the model, \<open>hasattr\<close> is false and nothing is
  set.\<close>

fun setattr_kwarg :: "'k kwarg \<Rightarrow> 'k configuration \<Rightarrow> 'k configuration" where
  "setattr_kwarg (Kw_webhook_url v) c = c\<lparr>webhook_url := v\<rparr>"
| "setattr_kwarg (Kw_webhook_timeout_seconds v) c = c\<lparr>webhook_timeout_seconds := v\<rparr>"
| "setattr_kwarg (Kw_include_webhook_url v) c = c\<lparr>include_webhook_url := v\<rparr>"
| "setattr_kwarg (Kw_base_open_tracking_url v) c = c\<lparr>base_open_tracking_url := v\<rparr>"
| "setattr_kwarg (Kw_base_click_tracking_url v) c = c\<lparr>base_click_tracking_url := v\<rparr>"
| "setattr_kwarg (Kw_default_metadata v) c = c\<lparr>default_metadata := v\<rparr>"
| "setattr_kwarg (Kw_include_default_metadata v) c = c\<lparr>include_default_metadata := v\<rparr>"
| "setattr_kwarg (Kw_encryption_bytestring_key v) c = c\<lparr>encryption_bytestring_key := v\<rparr>"
| "setattr_kwarg (Kw_encoding v) c = c\<lparr>encoding := v\<rparr>"
| "setattr_kwarg (Kw_kwargs v) c = c\<lparr>kwargs := v\<rparr>"
| "setattr_kwarg (Kw_encryption_key v) c = c\<lparr>encryption_key := v\<rparr>"
| "setattr_kwarg (Kw_append_slash v) c = c\<lparr>append_slash := v\<rparr>"
| "setattr_kwarg (Kw_pixel_position v) c = c\<lparr>pixel_position := v\<rparr>"
| "setattr_kwarg (Kw_other name v) c = c"

text \<open>
  The loop \<open>for key, value in kwargs.items(): if hasattr(new_configuration, key):
  setattr(new_configuration, key, value)\<close> (lines 99 to 101). At an entry that is
  outside the model the result is \<open>NotModelled\<close>.
\<close>

fun setattr_loop :: "'k kwarg list \<Rightarrow> 'k configuration \<Rightarrow> error + 'k configuration" where
  "setattr_loop [] c = Inr c"
| "setattr_loop (kw # kws) c =
     (if outside_model kw then Inl NotModelled else setattr_loop kws (setattr_kwarg kw c))"

text \<open>\<open>Configuration.merge_with_kwargs\<close> (lines 88 to 106).\<close>

definition merge_with_kwargs ::
  "'k pylib \<Rightarrow> 'k heap \<Rightarrow> nat \<Rightarrow> 'k kwarg list \<Rightarrow> error + (nat \<times> 'k heap)" where
  "merge_with_kwargs L h self kws =
     (case deepcopy L h self of
        Inl e \<Rightarrow> Inl e
      | Inr (new_configuration, h1) \<Rightarrow>
          (case setattr_loop kws (deref h1 new_configuration) of
             Inl e \<Rightarrow> Inl e
           | Inr c \<Rightarrow>
               (let h2 = store h1 new_configuration c
                in case cache_encryption_key L h2 new_configuration of
                     Inl e \<Rightarrow> Inl e
                   | Inr h3 \<Rightarrow> Inr (new_configuration, h3))))"

text \<open>The module-level \<open>get_configuration\<close> (lines 367 to 378).\<close>

definition get_configuration ::
  "'k pylib \<Rightarrow> 'k heap \<Rightarrow> nat option \<Rightarrow> 'k kwarg list \<Rightarrow> error + (nat \<times> 'k heap)" where
  "get_configuration L h configuration kws =
     (case configuration of
        Some self \<Rightarrow> merge_with_kwargs L h self kws
      | None \<Rightarrow>
          (case Configuration L h default_attributes of
             Inl e \<Rightarrow> Inl e
           | Inr (self, h1) \<Rightarrow> merge_with_kwargs L h1 self kws))"

section \<open>Encoding and decoding the payload\<close>

text \<open>
  \<open>Configuration.get_url_encoded_data_str\<close> (lines 154 to 176). \<open>now\<close> and \<open>iv\<close>
  are the clock reading and the random bytes that \<open>Fernet.encrypt\<close> takes from
  its environment. A \<open>Fernet\<close> object is always true, so \<open>if self.encryption_key\<close>
  tests for \<open>None\<close>.
\<close>

definition get_url_encoded_data_str ::
  "'k pylib \<Rightarrow> 'k configuration \<Rightarrow> int \<Rightarrow> pybytes \<Rightarrow> pydict \<Rightarrow> error + pystr" where
  "get_url_encoded_data_str L c now iv data_to_embed =
     (case str_encode L (encoding c) (json_dumps L (JObj data_to_embed)) of
        Inl e \<Rightarrow> Inl e
      | Inr json_byte_str \<Rightarrow>
          (case encryption_key c of
             Some f \<Rightarrow>
               bytes_decode L (encoding c) (fernet_encrypt L (handle f) now iv json_byte_str)
           | None \<Rightarrow>
               bytes_decode L (encoding c) (urlsafe_b64encode json_byte_str)))"

text \<open>\<open>if encoded_url_path.startswith("/"): encoded_url_path = encoded_url_path[1:]\<close>\<close>

definition strip_leading_slash :: "pystr \<Rightarrow> pystr" where
  "strip_leading_slash encoded_url_path =
     (if startswith encoded_url_path ''/'' then drop 1 encoded_url_path
      else encoded_url_path)"

text \<open>Lines 263 to 271 of \<open>get_tracking_result\<close>: from the encoded segment to the
  parsed payload.\<close>

definition decode_segment :: "'k pylib \<Rightarrow> 'k configuration \<Rightarrow> pystr \<Rightarrow> error + json" where
  "decode_segment L c segment =
     (case str_encode L (encoding c) segment of
        Inl e \<Rightarrow> Inl e
      | Inr token \<Rightarrow>
          (case (case encryption_key c of
                   Some f \<Rightarrow> fernet_decrypt L (handle f) token
                 | None \<Rightarrow> urlsafe_b64decode token) of
             Inl e \<Rightarrow> Inl e
           | Inr raw \<Rightarrow>
               (case bytes_decode L (encoding c) raw of
                  Inl e \<Rightarrow> Inl e
                | Inr payload \<Rightarrow> json_loads L payload)))"

text \<open>\<open>data.get(key, default)\<close> on the parsed payload: only a \<open>dict\<close> has \<open>get\<close>.\<close>

definition data_get :: "json \<Rightarrow> pystr \<Rightarrow> json \<Rightarrow> error + json" where
  "data_get data key dflt =
     (case data of
        JObj d \<Rightarrow> Inr (case map_of d key of None \<Rightarrow> dflt | Some v \<Rightarrow> v)
      | _ \<Rightarrow> Inl AttributeError)"

text \<open>
  \<open>metadata.update(x)\<close> for a parsed value \<open>x\<close>. A \<open>dict\<close> is merged. Any other
  value is read as a sequence of pairs: every element must be a sequence of
  length two (\<open>TypeError\<close> if it is no sequence, \<open>ValueError\<close> for another
  length) whose first component is hashable.
\<close>

fun update_pair :: "json \<Rightarrow> error + (pystr \<times> json)" where
  "update_pair (JList [JStr k, v]) = Inr (k, v)"
| "update_pair (JList [JList ks, v]) = Inl TypeError"
| "update_pair (JList [JObj ks, v]) = Inl TypeError"
| "update_pair (JList [k, v]) = Inl NotModelled"
| "update_pair (JList xs) = Inl ValueError"
| "update_pair (JStr [a, b]) = Inr ([a], JStr [b])"
| "update_pair (JStr s) = Inl ValueError"
| "update_pair (JObj [(k1, v1), (k2, v2)]) = Inr (k1, JStr k2)"
| "update_pair (JObj d) = Inl ValueError"
| "update_pair x = Inl TypeError"

fun update_pairs :: "pydict \<Rightarrow> json list \<Rightarrow> error + pydict" where
  "update_pairs md [] = Inr md"
| "update_pairs md (x # xs) =
     (case update_pair x of
        Inl e \<Rightarrow> Inl e
      | Inr (k, v) \<Rightarrow> update_pairs (AList.update k v md) xs)"

definition metadata_update :: "pydict \<Rightarrow> json \<Rightarrow> error + pydict" where
  "metadata_update md x =
     (case x of
        JObj e \<Rightarrow> Inr (dict_update md e)
      | JList xs \<Rightarrow> update_pairs md xs
      | JStr s \<Rightarrow> (if s = [] then Inr md else Inl ValueError)
      | _ \<Rightarrow> Inl TypeError)"

text \<open>Lines 273 to 291 of \<open>get_tracking_result\<close>: from the parsed payload to the
  \<open>TrackingResult\<close>.\<close>

definition tracking_result_of_data ::
  "'k configuration \<Rightarrow> int \<Rightarrow> pydict option \<Rightarrow> bool \<Rightarrow> json \<Rightarrow> error + tracking_result" where
  "tracking_result_of_data c now req is_open data =
     (let md0 = (if \<not> include_default_metadata c \<and> truthy_dict (default_metadata c)
                 then dict_update [] (the (default_metadata c)) else [])
      in case data_get data ''metadata'' (JObj []) of
           Inl e \<Rightarrow> Inl e
         | Inr m \<Rightarrow>
             (case metadata_update md0 m of
                Inl e \<Rightarrow> Inl e
              | Inr md1 \<Rightarrow>
                  (case (if include_webhook_url c then data_get data ''webhook'' JNull
                         else Inr (case webhook_url c of None \<Rightarrow> JNull | Some w \<Rightarrow> JStr w)) of
                     Inl e \<Rightarrow> Inl e
                   | Inr wh \<Rightarrow>
                       (case data_get data ''url'' JNull of
                          Inl e \<Rightarrow> Inl e
                        | Inr u \<Rightarrow>
                            Inr \<lparr>is_open_tracking = is_open,
                                 is_click_tracking = (\<not> is_open),
                                 tracked_url = u,
                                 result_webhook_url = wh,
                                 metadata = md1,
                                 request_data = req,
                                 timestamp = now\<rparr>))))"

text \<open>\<open>Configuration.get_tracking_result\<close> (lines 242 to 291); \<open>now\<close> is
  \<open>int(time.time())\<close>.\<close>

definition get_tracking_result ::
  "'k pylib \<Rightarrow> 'k configuration \<Rightarrow> int \<Rightarrow> pystr \<Rightarrow> pydict option \<Rightarrow> bool
     \<Rightarrow> error + tracking_result" where
  "get_tracking_result L c now encoded_url_path req is_open =
     (case decode_segment L c (strip_leading_slash encoded_url_path) of
        Inl e \<Rightarrow> Inl e
      | Inr data \<Rightarrow> tracking_result_of_data c now req is_open data)"

section \<open>The module-level decoding functions\<close>





section \<open>A reference instance of the libraries\<close>

text \<open>
  The theorems below hold for every library that meets their hypotheses. This
  section defines one such library, used to evaluate the code on concrete
  inputs: \<open>json.dumps\<close> with its default separators and \<open>ensure_ascii\<close>,
  \<open>json.loads\<close>, the codecs \<open>ascii\<close>, \<open>latin-1\<close> and \<open>utf-8\<close>, a simple
  \<open>urljoin\<close> and a stand-in for the cipher. Where Python would return or need a
  value that the types of this model do not have (a float, a character above
  U+00FF, another codec), the result is \<open>NotModelled\<close>.
\<close>

subsection \<open>json.dumps\<close>

definition hex_digit :: "nat \<Rightarrow> char" where
  "hex_digit n = ''0123456789abcdef'' ! (n mod 16)"

definition dec_digit :: "nat \<Rightarrow> char" where
  "dec_digit n = char_of (48 + n mod 10)"

fun show_nat :: "nat \<Rightarrow> string" where
  "show_nat n = (if n < 10 then [dec_digit n] else show_nat (n div 10) @ [dec_digit n])"

definition show_int :: "int \<Rightarrow> string" where
  "show_int i = (if i < 0 then CHR ''-'' # show_nat (nat (- i)) else show_nat (nat i))"

definition escape_char :: "char \<Rightarrow> string" where
  "escape_char c =
     (let n = (of_char c :: nat) in
      if c = CHR 0x22 then [CHR 0x5C, CHR 0x22]
      else if c = CHR 0x5C then [CHR 0x5C, CHR 0x5C]
      else if n = 8 then [CHR 0x5C, CHR ''b'']
      else if n = 12 then [CHR 0x5C, CHR ''f'']
      else if n = 10 then [CHR 0x5C, CHR ''n'']
      else if n = 13 then [CHR 0x5C, CHR ''r'']
      else if n = 9 then [CHR 0x5C, CHR ''t'']
      else if n < 32 \<or> n > 126
        then [CHR 0x5C, CHR ''u'', CHR ''0'', CHR ''0'', hex_digit (n div 16), hex_digit n]
      else [c])"

definition dumps_str :: "pystr \<Rightarrow> string" where
  "dumps_str s = CHR 0x22 # concat (map escape_char s) @ [CHR 0x22]"

fun join_items :: "string list \<Rightarrow> string" where
  "join_items [] = []"
| "join_items [x] = x"
| "join_items (x # xs) = x @ '', '' @ join_items xs"

fun py_dumps :: "json \<Rightarrow> string" where
  "py_dumps JNull = ''null''"
| "py_dumps (JBool b) = (if b then ''true'' else ''false'')"
| "py_dumps (JInt i) = show_int i"
| "py_dumps (JStr s) = dumps_str s"
| "py_dumps (JList xs) = ''['' @ join_items (map py_dumps xs) @ '']''"
| "py_dumps (JObj kvs) =
     ''{'' @ join_items (map (\<lambda>(k, v). dumps_str k @ '': '' @ py_dumps v) kvs) @ ''}''"

subsection \<open>json.loads\<close>

definition is_ws :: "char \<Rightarrow> bool" where
  "is_ws c = (c = CHR '' '' \<or> c = CHR 0x09 \<or> c = CHR 0x0A \<or> c = CHR 0x0D)"

definition skip_ws :: "string \<Rightarrow> string" where
  "skip_ws s = dropWhile is_ws s"

definition is_digit :: "char \<Rightarrow> bool" where
  "is_digit c = (48 \<le> (of_char c :: nat) \<and> (of_char c :: nat) \<le> 57)"

definition hex_value :: "char \<Rightarrow> nat option" where
  "hex_value c =
     (let n = (of_char c :: nat) in
      if 48 \<le> n \<and> n \<le> 57 then Some (n - 48)
      else if 97 \<le> n \<and> n \<le> 102 then Some (n - 87)
      else if 65 \<le> n \<and> n \<le> 70 then Some (n - 55)
      else None)"

definition hex4 :: "char \<Rightarrow> char \<Rightarrow> char \<Rightarrow> char \<Rightarrow> nat option" where
  "hex4 a b c d =
     (case (hex_value a, hex_value b, hex_value c, hex_value d) of
        (Some w, Some x, Some y, Some z) \<Rightarrow> Some (((w * 16 + x) * 16 + y) * 16 + z)
      | _ \<Rightarrow> None)"

definition unescape :: "char \<Rightarrow> char option" where
  "unescape e =
     (if e = CHR 0x22 then Some (CHR 0x22)
      else if e = CHR 0x5C then Some (CHR 0x5C)
      else if e = CHR ''/'' then Some (CHR ''/'')
      else if e = CHR ''b'' then Some (CHR 0x08)
      else if e = CHR ''f'' then Some (CHR 0x0C)
      else if e = CHR ''n'' then Some (CHR 0x0A)
      else if e = CHR ''r'' then Some (CHR 0x0D)
      else if e = CHR ''t'' then Some (CHR 0x09)
      else None)"

fun scan_string :: "string \<Rightarrow> string \<Rightarrow> error + (string \<times> string)" where
  "scan_string acc [] = Inl JSONDecodeError"
| "scan_string acc (c # cs) =
     (if c = CHR 0x22 then Inr (rev acc, cs)
      else if c = CHR 0x5C then
        (case cs of
           [] \<Rightarrow> Inl JSONDecodeError
         | e # cs1 \<Rightarrow>
             if e = CHR ''u'' then
               (case cs1 of
                  w # x # y # z # cs2 \<Rightarrow>
                    (case hex4 w x y z of
                       None \<Rightarrow> Inl JSONDecodeError
                     | Some n \<Rightarrow>
                         if n < 256 then scan_string (char_of n # acc) cs2
                         else Inl NotModelled)
                | _ \<Rightarrow> Inl JSONDecodeError)
             else
               (case unescape e of
                  None \<Rightarrow> Inl JSONDecodeError
                | Some ch \<Rightarrow> scan_string (ch # acc) cs1))
      else if (of_char c :: nat) < 32 then Inl JSONDecodeError
      else scan_string (c # acc) cs)"

definition digits_value :: "string \<Rightarrow> nat" where
  "digits_value ds = foldl (\<lambda>a c. a * 10 + ((of_char c :: nat) - 48)) 0 ds"

definition float_follows :: "string \<Rightarrow> bool" where
  "float_follows r =
     (case r of
        [] \<Rightarrow> False
      | c # r1 \<Rightarrow>
          if c = CHR ''.'' then (case r1 of [] \<Rightarrow> False | d # r2 \<Rightarrow> is_digit d)
          else if c = CHR ''e'' \<or> c = CHR ''E'' then
            (case r1 of
               [] \<Rightarrow> False
             | d # r2 \<Rightarrow>
                 is_digit d
                 \<or> ((d = CHR ''+'' \<or> d = CHR ''-'')
                     \<and> (case r2 of [] \<Rightarrow> False | d2 # r3 \<Rightarrow> is_digit d2)))
          else False)"

definition parse_number :: "string \<Rightarrow> error + (json \<times> string)" where
  "parse_number s =
     (let neg = startswith s ''-'';
          s1 = (if neg then drop 1 s else s);
          ds = takeWhile is_digit s1;
          rest = dropWhile is_digit s1
      in if ds = [] then Inl JSONDecodeError
         else
           (let ip = (if hd ds = CHR ''0'' then ''0'' else ds);
                rest1 = (if hd ds = CHR ''0'' then tl ds @ rest else rest)
            in if float_follows rest1 then Inl NotModelled
               else Inr (JInt (if neg then - int (digits_value ip) else int (digits_value ip)),
                         rest1)))"

text \<open>
  The scanner, with fuel for the nesting: \<open>PValue\<close> reads one value,
  \<open>PElements acc\<close> the rest of an array whose elements so far are \<open>acc\<close> (in
  reverse), \<open>PMembers acc\<close> the rest of an object whose members so far are \<open>acc\<close>.
\<close>

datatype pmode = PValue | PElements "json list" | PMembers pydict

primrec parse_json :: "nat \<Rightarrow> pmode \<Rightarrow> string \<Rightarrow> error + (json \<times> string)" where
  "parse_json 0 m s = Inl NotModelled"
| "parse_json (Suc n) m s =
     (case m of
        PValue \<Rightarrow>
          (if startswith s ''null'' then Inr (JNull, drop 4 s)
           else if startswith s ''true'' then Inr (JBool True, drop 4 s)
           else if startswith s ''false'' then Inr (JBool False, drop 5 s)
           else if startswith s ''NaN'' \<or> startswith s ''Infinity''
                   \<or> startswith s ''-Infinity''
             then Inl NotModelled
           else
             (case s of
                [] \<Rightarrow> Inl JSONDecodeError
              | c # cs \<Rightarrow>
                  if c = CHR 0x22 then
                    (case scan_string [] cs of
                       Inl e \<Rightarrow> Inl e
                     | Inr (str, rest) \<Rightarrow> Inr (JStr str, rest))
                  else if c = CHR ''['' then
                    (if startswith (skip_ws cs) '']'' then Inr (JList [], drop 1 (skip_ws cs))
                     else parse_json n (PElements []) (skip_ws cs))
                  else if c = CHR ''{'' then
                    (if startswith (skip_ws cs) ''}'' then Inr (JObj [], drop 1 (skip_ws cs))
                     else parse_json n (PMembers []) (skip_ws cs))
                  else if c = CHR ''-'' \<or> is_digit c then parse_number s
                  else Inl JSONDecodeError))
      | PElements acc \<Rightarrow>
          (case parse_json n PValue s of
             Inl e \<Rightarrow> Inl e
           | Inr (v, rest) \<Rightarrow>
               if startswith (skip_ws rest) '','' then
                 parse_json n (PElements (v # acc)) (skip_ws (drop 1 (skip_ws rest)))
               else if startswith (skip_ws rest) '']'' then
                 Inr (JList (rev (v # acc)), drop 1 (skip_ws rest))
               else Inl JSONDecodeError)
      | PMembers acc \<Rightarrow>
          (if \<not> startswith s [CHR 0x22] then Inl JSONDecodeError
           else
             (case scan_string [] (drop 1 s) of
                Inl e \<Rightarrow> Inl e
              | Inr (k, rest) \<Rightarrow>
                  if \<not> startswith (skip_ws rest) '':'' then Inl JSONDecodeError
                  else
                    (case parse_json n PValue (skip_ws (drop 1 (skip_ws rest))) of
                       Inl e \<Rightarrow> Inl e
                     | Inr (v, rest2) \<Rightarrow>
                         if startswith (skip_ws rest2) '','' then
                           parse_json n (PMembers (AList.update k v acc))
                             (skip_ws (drop 1 (skip_ws rest2)))
                         else if startswith (skip_ws rest2) ''}'' then
                           Inr (JObj (AList.update k v acc), drop 1 (skip_ws rest2))
                         else Inl JSONDecodeError))))"

definition py_loads :: "pystr \<Rightarrow> error + json" where
  "py_loads s =
     (case parse_json (Suc (length s)) PValue (skip_ws s) of
        Inl e \<Rightarrow> Inl e
      | Inr (v, rest) \<Rightarrow> if skip_ws rest = [] then Inr v else Inl JSONDecodeError)"

subsection \<open>Text codecs\<close>

definition is_ascii :: "string \<Rightarrow> bool" where
  "is_ascii s = list_all (\<lambda>c. (of_char c :: nat) < 128) s"

definition utf8_encode_char :: "char \<Rightarrow> pybytes" where
  "utf8_encode_char c =
     (let n = (of_char c :: nat) in
      if n < 128 then [c] else [char_of (192 + n div 64), char_of (128 + n mod 64)])"

fun utf8_decode :: "pybytes \<Rightarrow> error + pystr" where
  "utf8_decode [] = Inr []"
| "utf8_decode (b # bs) =
     (let n = (of_char b :: nat) in
      if n < 128 then
        (case utf8_decode bs of Inl e \<Rightarrow> Inl e | Inr s \<Rightarrow> Inr (b # s))
      else if n = 194 \<or> n = 195 then
        (case bs of
           [] \<Rightarrow> Inl UnicodeError
         | c # bs1 \<Rightarrow>
             (let m = (of_char c :: nat) in
              if 128 \<le> m \<and> m < 192 then
                (case utf8_decode bs1 of
                   Inl e \<Rightarrow> Inl e
                 | Inr s \<Rightarrow> Inr (char_of ((n - 192) * 64 + (m - 128)) # s))
              else Inl UnicodeError))
      else if 196 \<le> n \<and> n \<le> 244 then Inl NotModelled
      else Inl UnicodeError)"

definition py_str_encode :: "pystr \<Rightarrow> pystr \<Rightarrow> error + pybytes" where
  "py_str_encode enc s =
     (if enc = ''ascii'' then (if is_ascii s then Inr s else Inl UnicodeError)
      else if enc = ''latin-1'' then Inr s
      else if enc = ''utf-8'' then Inr (concat (map utf8_encode_char s))
      else Inl NotModelled)"

definition py_bytes_decode :: "pystr \<Rightarrow> pybytes \<Rightarrow> error + pystr" where
  "py_bytes_decode enc b =
     (if enc = ''ascii'' then (if is_ascii b then Inr b else Inl UnicodeError)
      else if enc = ''latin-1'' then Inr b
      else if enc = ''utf-8'' then utf8_decode b
      else Inl NotModelled)"

subsection \<open>urljoin\<close>

text \<open>
  \<open>urljoin(base, url)\<close> returns \<open>url\<close> when the base is \<open>None\<close> or empty, and the
  base when \<open>url\<close> is empty. Beyond that only the simplest case is modelled: the
  base is \<open>http://\<close> or \<open>https://\<close>, a host of letters, digits, dots and hyphens,
  and a path of letters, digits, hyphens, underscores and single slashes; the
  reference is one path segment of letters, digits, \<open>-\<close>, \<open>_\<close> and \<open>=\<close> (the
  characters of URL-safe base64). Then the result is the base up to its last
  slash, followed by the reference. Every other call is \<open>NotModelled\<close>.
\<close>

definition is_alnum :: "char \<Rightarrow> bool" where
  "is_alnum c =
     (let n = of_char c :: nat
      in (48 \<le> n \<and> n \<le> 57) \<or> (65 \<le> n \<and> n \<le> 90) \<or> (97 \<le> n \<and> n \<le> 122))"

definition segment_char :: "char \<Rightarrow> bool" where
  "segment_char c = (is_alnum c \<or> c = CHR ''-'' \<or> c = CHR ''_'' \<or> c = CHR ''='')"

definition host_char :: "char \<Rightarrow> bool" where
  "host_char c = (is_alnum c \<or> c = CHR ''.'' \<or> c = CHR ''-'')"

definition path_char :: "char \<Rightarrow> bool" where
  "path_char c = (is_alnum c \<or> c = CHR ''/'' \<or> c = CHR ''-'' \<or> c = CHR ''_'')"

fun no_double_slash :: "pystr \<Rightarrow> bool" where
  "no_double_slash (c # d # cs) =
     (\<not> (c = CHR ''/'' \<and> d = CHR ''/'') \<and> no_double_slash (d # cs))"
| "no_double_slash cs = True"

definition simple_base_after :: "pystr \<Rightarrow> pystr \<Rightarrow> bool" where
  "simple_base_after scheme b =
     (let rest = drop (length scheme) b;
          host = takeWhile (\<lambda>c. c \<noteq> CHR ''/'') rest;
          path = dropWhile (\<lambda>c. c \<noteq> CHR ''/'') rest
      in prefix scheme b \<and> host \<noteq> [] \<and> list_all host_char host
         \<and> path \<noteq> [] \<and> list_all path_char path \<and> no_double_slash path)"

definition simple_base :: "pystr \<Rightarrow> bool" where
  "simple_base b = (simple_base_after ''http://'' b \<or> simple_base_after ''https://'' b)"

definition py_urljoin :: "pystr option \<Rightarrow> pystr \<Rightarrow> error + pystr" where
  "py_urljoin base url =
     (case base of
        None \<Rightarrow> Inr url
      | Some b \<Rightarrow>
          if b = [] then Inr url
          else if url = [] then Inr b
          else if simple_base b \<and> list_all segment_char url
          then Inr (rev (dropWhile (\<lambda>c. c \<noteq> CHR ''/'') (rev b)) @ url)
          else Inl NotModelled)"

subsection \<open>A stand-in for the Fernet cipher\<close>

text \<open>
  The constructor is the one of \<open>Fernet\<close>: the key material, a \<open>str\<close>, must be
  the URL-safe base64 of 32 bytes, or \<open>ValueError\<close> is raised (\<open>urlsafe_b64decode\<close>
  raises it for a \<open>str\<close> that is not ASCII, and the constructor for the rest). Encryption and decryption are
  not a cipher: a token is the base64 of the version byte \<open>0x80\<close> of a Fernet
  token, the key and the data, and decryption accepts a token only if it holds
  its own key. It has the interface and the error behaviour the code relies on.
\<close>

definition toy_Fernet :: "pystr \<Rightarrow> error + pybytes" where
  "toy_Fernet key =
     (if \<not> is_ascii key then Inl ValueError
      else case urlsafe_b64decode key of
             Inl e \<Rightarrow> Inl ValueError
           | Inr raw \<Rightarrow> if length raw \<noteq> 32 then Inl ValueError else Inr raw)"

definition toy_encrypt :: "pybytes \<Rightarrow> int \<Rightarrow> pybytes \<Rightarrow> pybytes \<Rightarrow> pybytes" where
  "toy_encrypt k now iv data = urlsafe_b64encode (CHR 0x80 # k @ data)"

definition toy_decrypt :: "pybytes \<Rightarrow> pybytes \<Rightarrow> error + pybytes" where
  "toy_decrypt k token =
     (case urlsafe_b64decode token of
        Inl e \<Rightarrow> Inl InvalidToken
      | Inr raw \<Rightarrow>
          if prefix (CHR 0x80 # k) raw then Inr (drop (Suc (length k)) raw)
          else Inl InvalidToken)"

definition py_lib :: "pybytes pylib" where
  "py_lib =
     \<lparr>json_dumps = py_dumps, json_loads = py_loads,
      str_encode = py_str_encode, bytes_decode = py_bytes_decode,
      urljoin = py_urljoin, Fernet = toy_Fernet,
      fernet_encrypt = toy_encrypt, fernet_decrypt = toy_decrypt\<rparr>"

text \<open>Two keys: the base64 of the bytes 0 to 31 and of the bytes 32 to 63.\<close>

definition key_A :: pystr where
  "key_A = ''AAECAwQFBgcICQoLDA0ODxAREhMUFRYXGBkaGxwdHh8=''"

definition key_B :: pystr where
  "key_B = ''ICEiIyQlJicoKSorLC0uLzAxMjM0NTY3ODk6Ozw9Pj8=''"

section \<open>Example configurations\<close>

text \<open>A configuration whose two base URLs are \<open>https://t.example/c/\<close>, all other
  attributes at their defaults.\<close>

definition example_config :: "pybytes configuration" where
  "example_config =
     default_attributes\<lparr>base_click_tracking_url := Some ''https://t.example/c/'',
                        base_open_tracking_url := Some ''https://t.example/c/''\<rparr>"

section \<open>Building tracking URLs\<close>

text \<open>\<open>Configuration.get_open_tracking_url_from_data_str\<close> and
  \<open>Configuration.get_click_tracking_url_from_data_str\<close> (lines 178 to 206).\<close>

definition get_open_tracking_url_from_data_str ::
  "'k pylib \<Rightarrow> 'k configuration \<Rightarrow> pystr \<Rightarrow> error + pystr" where
  "get_open_tracking_url_from_data_str L c data_str =
     (case urljoin L (base_open_tracking_url c) data_str of
        Inl e \<Rightarrow> Inl e
      | Inr temp_url \<Rightarrow> Inr (if append_slash c then temp_url @ ''/'' else temp_url))"

definition get_click_tracking_url_from_data_str ::
  "'k pylib \<Rightarrow> 'k configuration \<Rightarrow> pystr \<Rightarrow> error + pystr" where
  "get_click_tracking_url_from_data_str L c data_str =
     (case urljoin L (base_click_tracking_url c) data_str of
        Inl e \<Rightarrow> Inl e
      | Inr temp_url \<Rightarrow> Inr (if append_slash c then temp_url @ ''/'' else temp_url))"

text \<open>\<open>Configuration.get_open_tracking_url\<close> and
  \<open>Configuration.get_click_tracking_url\<close> (lines 208 to 240).\<close>

definition get_open_tracking_url ::
  "'k pylib \<Rightarrow> 'k configuration \<Rightarrow> int \<Rightarrow> pybytes \<Rightarrow> pydict option \<Rightarrow> error + pystr" where
  "get_open_tracking_url L c now iv extra_metadata =
     (let data_to_embed = get_data_to_embed c None extra_metadata
      in case get_url_encoded_data_str L c now iv data_to_embed of
           Inl e \<Rightarrow> Inl e
         | Inr data_str \<Rightarrow> get_open_tracking_url_from_data_str L c data_str)"

definition get_click_tracking_url ::
  "'k pylib \<Rightarrow> 'k configuration \<Rightarrow> int \<Rightarrow> pybytes \<Rightarrow> pystr option \<Rightarrow> pydict option
     \<Rightarrow> error + pystr" where
  "get_click_tracking_url L c now iv url_to_track extra_metadata =
     (let data_to_embed = get_data_to_embed c url_to_track extra_metadata
      in case get_url_encoded_data_str L c now iv data_to_embed of
           Inl e \<Rightarrow> Inl e
         | Inr data_str \<Rightarrow> get_click_tracking_url_from_data_str L c data_str)"

text \<open>The module-level \<open>get_click_tracking_url\<close> (lines 404 to 419).\<close>

definition pytracking_get_click_tracking_url ::
  "'k pylib \<Rightarrow> 'k heap \<Rightarrow> int \<Rightarrow> pybytes \<Rightarrow> pystr option \<Rightarrow> pydict option \<Rightarrow> nat option
     \<Rightarrow> 'k kwarg list \<Rightarrow> error + pystr" where
  "pytracking_get_click_tracking_url L h now iv url_to_track md configuration kws =
     (case get_configuration L h configuration kws of
        Inl e \<Rightarrow> Inl e
      | Inr (conf, h1) \<Rightarrow> get_click_tracking_url L (deref h1 conf) now iv url_to_track md)"

section \<open>Rewriting the links of a document\<close>

text \<open>
  \<open>_replace_links\<close> (html.py, lines 53 to 65). The document is the list of the
  triples (tag, attribute, link) that \<open>iterlinks\<close> yields, and the result is the
  same list after the assignments to \<open>href\<close>. \<open>clock n\<close> is the clock reading and
  the random bytes for the \<open>n\<close>-th link that is rewritten.
\<close>

fun replace_links ::
  "'k pylib \<Rightarrow> 'k heap \<Rightarrow> (nat \<Rightarrow> int \<times> pybytes) \<Rightarrow> nat \<Rightarrow> pydict option \<Rightarrow> nat
     \<Rightarrow> (pystr \<times> pystr \<times> pystr) list \<Rightarrow> error + (pystr \<times> pystr \<times> pystr) list" where
  "replace_links L h clock n extra_metadata configuration [] = Inr []"
| "replace_links L h clock n extra_metadata configuration ((tag, attribute, link) # rest) =
     (if tag = ''a'' \<and> attribute = ''href''
         \<and> valid_link link (Some (deref h configuration))
      then
        (case pytracking_get_click_tracking_url L h (fst (clock n)) (snd (clock n))
                (Some link) extra_metadata (Some configuration) [] of
           Inl e \<Rightarrow> Inl e
         | Inr new_link \<Rightarrow>
             (case replace_links L h clock (Suc n) extra_metadata configuration rest of
                Inl e \<Rightarrow> Inl e
              | Inr rest' \<Rightarrow> Inr ((tag, attribute, new_link) # rest')))
      else
        (case replace_links L h clock n extra_metadata configuration rest of
           Inl e \<Rightarrow> Inl e
         | Inr rest' \<Rightarrow> Inr ((tag, attribute, link) # rest')))"

text \<open>
  The metadata that \<open>get_data_to_embed\<close> embeds, written as one expression: the
  default metadata, if it is to be included, overlaid by the extra metadata
  (\<open>None\<close> counts as the empty dict).
\<close>

definition embedded_md :: "'k configuration \<Rightarrow> pydict option \<Rightarrow> pydict" where
  "embedded_md c extra =
     dict_update
       (dict_update []
          (if include_default_metadata c
           then (case default_metadata c of None \<Rightarrow> [] | Some d \<Rightarrow> d) else []))
       (case extra of None \<Rightarrow> [] | Some e \<Rightarrow> e)"

text \<open>A configuration with \<open>default_metadata = {"a": 1}\<close> that is included in the
  links, and the same with \<open>include_default_metadata = False\<close>.\<close>

definition merge_config :: "pybytes configuration" where
  "merge_config =
     default_attributes\<lparr>default_metadata := Some [(''a'', JInt 1)],
                        include_default_metadata := True\<rparr>"

definition local_config :: "pybytes configuration" where
  "local_config =
     default_attributes\<lparr>default_metadata := Some [(''a'', JInt 1)],
                        include_default_metadata := False\<rparr>"

text \<open>A character that is ASCII and is not a slash: every character of a
  URL-safe base64 string is one.\<close>

definition b64_safe :: "char \<Rightarrow> bool" where
  "b64_safe c = ((of_char c :: nat) < 128 \<and> c \<noteq> CHR ''/'')"

text \<open>
  The metadata a decoding configuration starts from (its default metadata,
  unless the links carry it), and the metadata of a parsed payload (the empty
  dict if the key is missing).
\<close>

definition local_md :: "'k configuration \<Rightarrow> pydict" where
  "local_md c =
     (if \<not> include_default_metadata c
      then dict_update [] (case default_metadata c of None \<Rightarrow> [] | Some d \<Rightarrow> d) else [])"

definition payload_md :: "pydict \<Rightarrow> json" where
  "payload_md d = (case map_of d ''metadata'' of None \<Rightarrow> JObj [] | Some m \<Rightarrow> m)"

text \<open>A payload has the shape of the payloads that \<open>get_data_to_embed\<close> builds
  when its metadata, if present, is a JSON object.\<close>

definition payload_shaped :: "pydict \<Rightarrow> bool" where
  "payload_shaped d = (case payload_md d of JObj m \<Rightarrow> True | _ \<Rightarrow> False)"

definition the_obj :: "json \<Rightarrow> pydict" where
  "the_obj j = (case j of JObj m \<Rightarrow> m | _ \<Rightarrow> [])"

text \<open>
  A codec is transparent on a string when encoding and decoding leave it as it
  is, as every ASCII-compatible codec is on an ASCII string.
\<close>

definition transparent :: "'k pylib \<Rightarrow> pystr \<Rightarrow> string \<Rightarrow> bool" where
  "transparent L enc s = (str_encode L enc s = Inr s \<and> bytes_decode L enc s = Inr s)"

text \<open>The bytes that \<open>get_url_encoded_data_str\<close> turns into the encoded string:
  the cipher's token if there is a key, the base64 of the JSON text if not.\<close>

definition token_of :: "'k pylib \<Rightarrow> 'k configuration \<Rightarrow> int \<Rightarrow> pybytes \<Rightarrow> pydict \<Rightarrow> pybytes" where
  "token_of L c now iv p =
     (case encryption_key c of
        Some f \<Rightarrow> fernet_encrypt L (handle f) now iv (json_dumps L (JObj p))
      | None \<Rightarrow> urlsafe_b64encode (json_dumps L (JObj p)))"

text \<open>The raw keys of \<open>key_A\<close> and \<open>key_B\<close>, and configurations that hold them, as
  \<open>Configuration(encryption_bytestring_key=...)\<close> builds them.\<close>

definition raw_A :: pybytes where
  "raw_A = map char_of [0..<32::nat]"

definition raw_B :: pybytes where
  "raw_B = map char_of [32..<64::nat]"

definition config_A :: "pybytes configuration" where
  "config_A =
     default_attributes\<lparr>encryption_bytestring_key := Some key_A,
                        encryption_key := Some \<lparr>obj_id = 1, handle = raw_A\<rparr>\<rparr>"


definition plain_config :: "pybytes configuration" where
  "plain_config = default_attributes"


text \<open>A payload that holds only the metadata \<open>{"b": 3}\<close>.\<close>

definition shape_payload :: pydict where
  "shape_payload = [(''metadata'', JObj [(''b'', JInt 3)])]"

text \<open>A configuration whose webhook URL and default metadata are set, and empty.\<close>

definition empty_webhook_config :: "pybytes configuration" where
  "empty_webhook_config =
     default_attributes\<lparr>webhook_url := Some [], include_webhook_url := True,
                        default_metadata := Some [], include_default_metadata := True\<rparr>"

text \<open>The test of \<open>_valid_link\<close> against \<open>_valid_scheme\<close>, spelt out.\<close>

definition scheme_ok :: "pystr \<Rightarrow> bool" where
  "scheme_ok link =
     (startswith link ''http://'' \<or> startswith link ''https://'' \<or> startswith link ''//'')"

text \<open>A store that holds \<open>example_config\<close>, and the links of a document: a
  \<open>mailto:\<close> anchor, an image, an anchor that is a tracking link already, and an
  anchor to \<open>https://example.com\<close>.\<close>

definition example_heap :: "pybytes heap" where
  "example_heap = \<lparr>objs = (\<lambda>r. None)(0 \<mapsto> example_config), next_obj = 1\<rparr>"

definition example_tree :: "(pystr \<times> pystr \<times> pystr) list" where
  "example_tree =
     [(''a'', ''href'', ''mailto:x@y.com''), (''img'', ''src'', ''https://example.com/x.png''),
      (''a'', ''href'', ''https://t.example/c/xyz''), (''a'', ''href'', ''https://example.com'')]"

text \<open>
  A store is well formed when every reference and every identity of a \<open>Fernet\<close>
  object in it is below \<open>next_obj\<close>, so that a new object is new.
\<close>

definition heap_ok :: "'k heap \<Rightarrow> bool" where
  "heap_ok h =
     (\<forall>r c. objs h r = Some c \<longrightarrow>
        r < next_obj h \<and> (\<forall>f. encryption_key c = Some f \<longrightarrow> obj_id f < next_obj h))"

text \<open>The name of the attribute that an override names, and whether an instance
  holds the value of the override in that attribute.\<close>

fun kw_name :: "'k kwarg \<Rightarrow> pystr" where
  "kw_name (Kw_webhook_url v) = ''webhook_url''"
| "kw_name (Kw_webhook_timeout_seconds v) = ''webhook_timeout_seconds''"
| "kw_name (Kw_include_webhook_url v) = ''include_webhook_url''"
| "kw_name (Kw_base_open_tracking_url v) = ''base_open_tracking_url''"
| "kw_name (Kw_base_click_tracking_url v) = ''base_click_tracking_url''"
| "kw_name (Kw_default_metadata v) = ''default_metadata''"
| "kw_name (Kw_include_default_metadata v) = ''include_default_metadata''"
| "kw_name (Kw_encryption_bytestring_key v) = ''encryption_bytestring_key''"
| "kw_name (Kw_encoding v) = ''encoding''"
| "kw_name (Kw_kwargs v) = ''kwargs''"
| "kw_name (Kw_encryption_key v) = ''encryption_key''"
| "kw_name (Kw_append_slash v) = ''append_slash''"
| "kw_name (Kw_pixel_position v) = ''pixel_position''"
| "kw_name (Kw_other name v) = name"

fun holds :: "'k kwarg \<Rightarrow> 'k configuration \<Rightarrow> bool" where
  "holds (Kw_webhook_url v) c = (webhook_url c = v)"
| "holds (Kw_webhook_timeout_seconds v) c = (webhook_timeout_seconds c = v)"
| "holds (Kw_include_webhook_url v) c = (include_webhook_url c = v)"
| "holds (Kw_base_open_tracking_url v) c = (base_open_tracking_url c = v)"
| "holds (Kw_base_click_tracking_url v) c = (base_click_tracking_url c = v)"
| "holds (Kw_default_metadata v) c = (default_metadata c = v)"
| "holds (Kw_include_default_metadata v) c = (include_default_metadata c = v)"
| "holds (Kw_encryption_bytestring_key v) c = (encryption_bytestring_key c = v)"
| "holds (Kw_encoding v) c = (encoding c = v)"
| "holds (Kw_kwargs v) c = (kwargs c = v)"
| "holds (Kw_encryption_key v) c = (encryption_key c = v)"
| "holds (Kw_append_slash v) c = (append_slash c = v)"
| "holds (Kw_pixel_position v) c = (pixel_position c = v)"
| "holds (Kw_other name v) c = True"

text \<open>A store that holds \<open>config_A\<close> and its \<open>Fernet\<close> object.\<close>

definition heap_A :: "pybytes heap" where
  "heap_A = \<lparr>objs = (\<lambda>r. None)(0 \<mapsto> config_A), next_obj = 2\<rparr>"

text \<open>
  What \<open>merge_with_kwargs\<close> guarantees when it returns the reference \<open>r\<close> and
  the store \<open>h'\<close>: \<open>r\<close> is new; no other object has changed, the receiver
  \<open>self\<close> among them; the new instance has the attributes of the receiver with
  the overrides applied; an attribute named by an override holds its value
  (names being distinct, as in a \<open>dict\<close>), an attribute not named holds what the
  receiver holds; and \<open>encryption_key\<close> is a new \<open>Fernet\<close> object built from the
  \<open>encryption_bytestring_key\<close> of the new instance, or \<open>None\<close> if that is empty.
\<close>

definition merge_post ::
  "'k pylib \<Rightarrow> 'k heap \<Rightarrow> nat \<Rightarrow> 'k configuration \<Rightarrow> 'k kwarg list \<Rightarrow> nat \<Rightarrow> 'k heap \<Rightarrow> bool" where
  "merge_post L h self c kws r h' =
     (objs h r = None
      \<and> (\<forall>r0. r0 \<noteq> r \<longrightarrow> objs h' r0 = objs h r0)
      \<and> objs h' self = Some c
      \<and> heap_ok h'
      \<and> (\<exists>c'. objs h' r = Some c'
            \<and> c'\<lparr>encryption_key := None\<rparr> = (fold setattr_kwarg kws c)\<lparr>encryption_key := None\<rparr>
            \<and> (\<forall>kw. distinct (map kw_name kws) \<and> kw \<in> set kws
                      \<and> (\<forall>v. kw \<noteq> Kw_encryption_key v) \<longrightarrow> holds kw c')
            \<and> (\<forall>kw. (\<forall>k \<in> set kws. kw_name kw \<noteq> kw_name k)
                      \<and> (\<forall>v. kw \<noteq> Kw_encryption_key v) \<longrightarrow> holds kw c' = holds kw c)
            \<and> (if truthy_str (encryption_bytestring_key c')
                then \<exists>k. Fernet L (the (encryption_bytestring_key c')) = Inr k
                       \<and> encryption_key c' = Some \<lparr>obj_id = Suc (next_obj h), handle = k\<rparr>
                else encryption_key c' = None)
            \<and> (\<forall>f f'. encryption_key c = Some f \<and> encryption_key c' = Some f'
                  \<longrightarrow> obj_id f' \<noteq> obj_id f)))"

text \<open>Overrides that replace the key, set a webhook URL and name something that
  is not an attribute.\<close>

definition merge_kwargs :: "pybytes kwarg list" where
  "merge_kwargs =
     [Kw_encryption_bytestring_key (Some key_B), Kw_webhook_url (Some ''https://hook.example''),
      Kw_other ''retries'' (JInt 3)]"


text \<open>The test of line 62 of html.py on an entry of the document: the entry is
  an anchor's \<open>href\<close> whose link \<open>_valid_link\<close> accepts.\<close>

definition to_rewrite :: "'k heap \<Rightarrow> nat \<Rightarrow> pystr \<times> pystr \<times> pystr \<Rightarrow> bool" where
  "to_rewrite h configuration e =
     (fst e = ''a'' \<and> fst (snd e) = ''href''
      \<and> valid_link (snd (snd e)) (Some (deref h configuration)))"

(*PROPERTIES*)
section \<open>Properties of dictionaries and slices\<close>

lemma map_of_dict_update: "map_of (dict_update d e) = map_of d ++ map_of (rev e)"
  unfolding dict_update_def
proof (induction e arbitrary: d)
  case Nil
  then show ?case by simp
next
  case (Cons a e)
  obtain k v where a: "a = (k, v)" by (cases a)
  show ?case
    by (simp add: Cons a update_conv' map_add_upd_left fun_eq_iff map_add_def
             split: option.splits)
qed

lemma map_of_rev_distinct: "distinct (map fst e) \<Longrightarrow> map_of (rev e) = map_of e"
proof (induction e)
  case Nil
  then show ?case by simp
next
  case (Cons a e)
  obtain k v where a: "a = (k, v)" by (cases a)
  from Cons.prems a have nk: "map_of e k = None"
    by (simp add: map_of_eq_None_iff)
  from Cons.prems have ih: "map_of (rev e) = map_of e" by (simp add: Cons.IH)
  have "map_of (rev (a # e)) x = map_of (a # e) x" for x
  proof (cases "x = k")
    case True
    then show ?thesis using nk by (simp add: a ih map_add_def)
  next
    case False
    then show ?thesis by (simp add: a ih map_add_def split: option.splits)
  qed
  then show ?case by (simp only: fun_eq_iff) simp
qed

lemma dict_update_lookup:
  "distinct (map fst e) \<Longrightarrow>
   map_of (dict_update d e) k = (case map_of e k of Some v \<Rightarrow> Some v | None \<Rightarrow> map_of d k)"
  by (simp add: map_of_dict_update map_of_rev_distinct map_add_def)

lemma update_not_Nil: "AList.update k v d \<noteq> []"
  by (cases d) auto

lemma fold_update_not_Nil:
  "d \<noteq> [] \<Longrightarrow> fold (\<lambda>(k, v) acc. AList.update k v acc) e d \<noteq> []"
proof (induction e arbitrary: d)
  case Nil
  then show ?case by simp
next
  case (Cons a e)
  obtain k v where a: "a = (k, v)" by (cases a)
  have "AList.update k v d \<noteq> []" by (rule update_not_Nil)
  then have "fold (\<lambda>(k, v) acc. AList.update k v acc) e (AList.update k v d) \<noteq> []"
    by (rule Cons.IH)
  then show ?case by (simp add: a)
qed

lemma dict_update_empty_iff: "dict_update d e = [] \<longleftrightarrow> d = [] \<and> e = []"
proof (cases e)
  case Nil
  then show ?thesis by (simp add: dict_update_def)
next
  case (Cons a e')
  obtain k v where a: "a = (k, v)" by (cases a)
  have "fold (\<lambda>(k, v) acc. AList.update k v acc) e' (AList.update k v d) \<noteq> []"
    by (rule fold_update_not_Nil) (rule update_not_Nil)
  with Cons a show ?thesis by (simp add: dict_update_def)
qed

lemma drop_eq_self: "drop n xs = xs \<Longrightarrow> n = 0 \<or> xs = []"
proof -
  assume "drop n xs = xs"
  then have "length (drop n xs) = length xs" by simp
  then have "length xs - n = length xs" by simp
  then show ?thesis by (cases xs) auto
qed

section \<open>The path-extraction methods\<close>

text \<open>
  Claim C9. \<open>get_click_tracking_url_path\<close> and \<open>get_open_tracking_url_path\<close> do
  not test that the input starts with the base URL: whenever the base URL is a
  string \<open>b\<close>, the result is the input without its first \<open>len(b)\<close> characters,
  whatever the input is. A non-empty input that does not start with \<open>b\<close> is
  therefore cut short, not returned as it is.
\<close>

theorem url_path_drops_base_length:
  "(base_click_tracking_url c = Some b \<longrightarrow>
      get_click_tracking_url_path c url = Inr (drop (length b) url)
      \<and> (\<not> startswith url b \<and> url \<noteq> [] \<longrightarrow> get_click_tracking_url_path c url \<noteq> Inr url))
   \<and> (base_open_tracking_url c = Some b \<longrightarrow>
      get_open_tracking_url_path c url = Inr (drop (length b) url)
      \<and> (\<not> startswith url b \<and> url \<noteq> [] \<longrightarrow> get_open_tracking_url_path c url \<noteq> Inr url))"
proof -
  have trunc: "drop (length b) url \<noteq> url" if "\<not> startswith url b" "url \<noteq> []"
  proof
    assume "drop (length b) url = url"
    then have "length b = 0 \<or> url = []" by (rule drop_eq_self)
    with that show False by (simp add: startswith_def)
  qed
  show ?thesis
    using trunc
    by (simp add: get_click_tracking_url_path_def get_open_tracking_url_path_def)
qed

theorem url_path_drops_base_length_witness:
  "base_click_tracking_url example_config = Some ''https://t.example/c/''
   \<and> base_open_tracking_url example_config = Some ''https://t.example/c/''
   \<and> \<not> startswith ''mailto:someone@example.org'' ''https://t.example/c/''
   \<and> get_click_tracking_url_path example_config ''mailto:someone@example.org'' = Inr ''le.org''
   \<and> get_open_tracking_url_path example_config ''mailto:someone@example.org'' = Inr ''le.org''
   \<and> get_click_tracking_url_path example_config ''mailto:someone@example.org''
       \<noteq> Inr ''mailto:someone@example.org''"
  using url_path_drops_base_length
          [of example_config "''https://t.example/c/''" "''mailto:someone@example.org''"]
  by (simp add: example_config_def default_attributes_def startswith_def)

section \<open>The embedded payload\<close>

lemma map_of_update_other: "k' \<noteq> k \<Longrightarrow> map_of (AList.update k v d) k' = map_of d k'"
  by (simp add: update_conv')

lemma map_of_update_same: "map_of (AList.update k v d) k = Some v"
  by (simp add: update_conv')

lemma dict_update_Nil [simp]: "dict_update d [] = d"
  by (simp add: dict_update_def)

lemma get_data_to_embed_eq:
  "get_data_to_embed c u extra =
     (let data1 = (if truthy_str u then [(''url'', JStr (the u))] else []);
          md = embedded_md c extra;
          data2 = (if md \<noteq> [] then AList.update ''metadata'' (JObj md) data1 else data1)
      in if include_webhook_url c \<and> truthy_str (webhook_url c)
         then AList.update ''webhook'' (JStr (the (webhook_url c))) data2 else data2)"
  by (cases "default_metadata c"; cases extra)
     (simp_all add: get_data_to_embed_def embedded_md_def truthy_dict_def Let_def)

lemma get_data_to_embed_url:
  "map_of (get_data_to_embed c u extra) ''url'' =
     (if truthy_str u then Some (JStr (the u)) else None)"
  by (simp add: get_data_to_embed_eq Let_def update_conv')

lemma get_data_to_embed_metadata:
  "map_of (get_data_to_embed c u extra) ''metadata'' =
     (if embedded_md c extra = [] then None else Some (JObj (embedded_md c extra)))"
  by (simp add: get_data_to_embed_eq Let_def update_conv')

lemma get_data_to_embed_webhook:
  "map_of (get_data_to_embed c u extra) ''webhook'' =
     (if include_webhook_url c \<and> truthy_str (webhook_url c)
      then Some (JStr (the (webhook_url c))) else None)"
  by (simp add: get_data_to_embed_eq Let_def update_conv')

lemma get_data_to_embed_keys:
  "fst ` set (get_data_to_embed c u extra) \<subseteq> {''url'', ''metadata'', ''webhook''}"
  by (simp add: get_data_to_embed_eq Let_def dom_update[symmetric] update_keys image_subset_iff subset_iff)

lemma map_of_dict_update_Nil:
  "distinct (map fst d) \<Longrightarrow> map_of (dict_update [] d) = map_of d"
  by (simp add: map_of_dict_update map_of_rev_distinct)

lemma values_update: "snd ` set (AList.update k v d) \<subseteq> insert v (snd ` set d)"
  by (induction d) auto

lemma get_data_to_embed_no_null:
  "JNull \<notin> snd ` set (get_data_to_embed c u extra)"
proof -
  let ?d1 = "if truthy_str u then [(''url'', JStr (the u))] else []"
  let ?md = "embedded_md c extra"
  let ?d2 = "if ?md \<noteq> [] then AList.update ''metadata'' (JObj ?md) ?d1 else ?d1"
  let ?d3 = "if include_webhook_url c \<and> truthy_str (webhook_url c)
             then AList.update ''webhook'' (JStr (the (webhook_url c))) ?d2 else ?d2"
  have 1: "JNull \<notin> snd ` set ?d1" by (cases "truthy_str u") simp_all
  have 2: "JNull \<notin> snd ` set ?d2"
    using 1 values_update [of "''metadata''" "JObj ?md" ?d1] by (auto split: if_splits)
  have 3: "JNull \<notin> snd ` set ?d3"
    using 2 values_update [of "''webhook''" "JStr (the (webhook_url c))" ?d2]
    by (auto split: if_splits)
  show ?thesis using 3 by (simp add: get_data_to_embed_eq Let_def)
qed

text \<open>
  Claim C2, as amended. In the dict that \<open>get_data_to_embed\<close> returns, \<open>url\<close> is
  present exactly when the tracked URL is a non-empty string, and then holds it;
  \<open>metadata\<close> is present exactly when the merged metadata is not empty, and
  then holds the default metadata (only if \<open>include_default_metadata\<close>) overlaid
  by the extra metadata, whose value wins on a key of both; \<open>webhook\<close> is present
  exactly when \<open>include_webhook_url\<close> is true and \<open>webhook_url\<close> is a non-empty
  string. There is no other key, and no key holds null. With
  \<open>default_metadata = {"a": 1}\<close> included and extra metadata \<open>{"a": 2, "b": 3}\<close>
  the embedded metadata is \<open>{"a": 2, "b": 3}\<close>.
\<close>

theorem get_data_to_embed_payload:
  "map_of (get_data_to_embed c u extra) ''url''
     = (if truthy_str u then Some (JStr (the u)) else None)
   \<and> map_of (get_data_to_embed c u extra) ''metadata''
     = (if embedded_md c extra = [] then None else Some (JObj (embedded_md c extra)))
   \<and> map_of (get_data_to_embed c u extra) ''webhook''
     = (if include_webhook_url c \<and> truthy_str (webhook_url c)
        then Some (JStr (the (webhook_url c))) else None)
   \<and> fst ` set (get_data_to_embed c u extra) \<subseteq> {''url'', ''metadata'', ''webhook''}
   \<and> JNull \<notin> snd ` set (get_data_to_embed c u extra)
   \<and> (distinct (map fst d) \<and> distinct (map fst e) \<and> include_default_metadata c
        \<and> default_metadata c = Some d \<longrightarrow>
        map_of (embedded_md c (Some e)) k
          = (case map_of e k of Some v \<Rightarrow> Some v | None \<Rightarrow> map_of d k))
   \<and> get_data_to_embed merge_config None (Some [(''a'', JInt 2), (''b'', JInt 3)])
       = [(''metadata'', JObj [(''a'', JInt 2), (''b'', JInt 3)])]"
proof -
  have lookup: "map_of (embedded_md c (Some e)) k
          = (case map_of e k of Some v \<Rightarrow> Some v | None \<Rightarrow> map_of d k)"
    if "distinct (map fst d)" "distinct (map fst e)" "include_default_metadata c"
       "default_metadata c = Some d"
    using that
    by (simp add: embedded_md_def dict_update_lookup map_of_dict_update_Nil
             split: option.splits)
  have ex: "get_data_to_embed merge_config None (Some [(''a'', JInt 2), (''b'', JInt 3)])
       = [(''metadata'', JObj [(''a'', JInt 2), (''b'', JInt 3)])]"
    by (simp add: get_data_to_embed_def merge_config_def default_attributes_def
          truthy_str_def truthy_dict_def dict_update_def)
  show ?thesis
    using lookup ex get_data_to_embed_url [of c u extra] get_data_to_embed_metadata [of c u extra]
      get_data_to_embed_webhook [of c u extra] get_data_to_embed_keys [of c u extra]
      get_data_to_embed_no_null [of c u extra]
    by blast
qed

theorem get_data_to_embed_payload_witness:
  "distinct (map fst [(''a'', JInt 1)]) \<and> distinct (map fst [(''a'', JInt 2), (''b'', JInt 3)])
   \<and> include_default_metadata merge_config
   \<and> default_metadata merge_config = Some [(''a'', JInt 1)]
   \<and> map_of (embedded_md merge_config (Some [(''a'', JInt 2), (''b'', JInt 3)])) ''a''
       = Some (JInt 2)
   \<and> map_of (get_data_to_embed merge_config (Some ''https://example.com'')
        (Some [(''a'', JInt 2), (''b'', JInt 3)])) ''url'' = Some (JStr ''https://example.com'')"
  using get_data_to_embed_payload
          [of merge_config "Some ''https://example.com''" "Some [(''a'', JInt 2), (''b'', JInt 3)]"
              "[(''a'', JInt 1)]" "[(''a'', JInt 2), (''b'', JInt 3)]" "''a''"]
  by (simp add: merge_config_def default_attributes_def truthy_str_def)

text \<open>
  Claim C2 as stated fails: the empty string is a tracked URL that was provided,
  and the payload has no \<open>url\<close> key.
\<close>

theorem url_key_iff_provided_counterexample:
  "\<not> (map_of (get_data_to_embed (default_attributes :: pybytes configuration) (Some []) None) ''url''
        \<noteq> None \<longleftrightarrow> (Some [] :: pystr option) \<noteq> None)"
  by (simp add: get_data_to_embed_def default_attributes_def truthy_str_def truthy_dict_def)

section \<open>URL-safe base64: decoding inverts encoding\<close>

lemma b64_alphabet_codes:
  "map (of_char :: char \<Rightarrow> nat) b64_alphabet = [65..<91] @ [97..<123] @ [48..<58] @ [45, 95]"
  by (simp add: b64_alphabet_def upt_rec_numeral)

lemma length_b64_alphabet: "length b64_alphabet = 64"
  by (simp add: b64_alphabet_def)

lemma of_char_b64_char:
  assumes "n < 64"
  shows "(of_char (b64_char n) :: nat) =
     (if n < 26 then 65 + n else if n < 52 then 71 + n else if n < 62 then n - 4
      else if n = 62 then 45 else 95)"
proof -
  have "(of_char (b64_char n) :: nat) = map of_char b64_alphabet ! n"
    using assms by (simp add: b64_char_def length_b64_alphabet)
  also have "\<dots> = ([65..<91] @ [97..<123] @ [48..<58] @ [45, 95]) ! n"
    by (simp only: b64_alphabet_codes)
  also have "\<dots> = (if n < 26 then 65 + n else if n < 52 then 71 + n else if n < 62 then n - 4
      else if n = 62 then 45 else 95)"
  proof -
    have l1: "length [65..<91::nat] = 26" and l2: "length [97..<123::nat] = 26"
      and l3: "length [48..<58::nat] = 10" by simp_all
    consider "n < 26" | "26 \<le> n" "n < 52" | "52 \<le> n" "n < 62" | "n = 62" | "n = 63"
      using assms by linarith
    then show ?thesis
    proof cases
      case 1
      then have "([65..<91] @ [97..<123] @ [48..<58] @ [45, 95::nat]) ! n = [65..<91] ! n"
        by (simp only: nth_append l1 if_True)
      also have "\<dots> = 65 + n" using 1 by (intro nth_upt) simp
      finally show ?thesis using 1 by simp
    next
      case 2
      then have "([65..<91] @ [97..<123] @ [48..<58] @ [45, 95::nat]) ! n = [97..<123] ! (n - 26)"
        by (simp only: nth_append l1 l2) simp
      also have "\<dots> = 97 + (n - 26)" using 2 by (intro nth_upt) simp
      finally show ?thesis using 2 by simp
    next
      case 3
      then have "([65..<91] @ [97..<123] @ [48..<58] @ [45, 95::nat]) ! n = [48..<58] ! (n - 52)"
        by (simp only: nth_append l1 l2 l3) auto
      also have "\<dots> = 48 + (n - 52)" using 3 by (intro nth_upt) simp
      finally show ?thesis using 3 by simp
    next
      case 4
      then show ?thesis by (simp only: nth_append l1 l2 l3) simp
    next
      case 5
      then show ?thesis by (simp only: nth_append l1 l2 l3) simp
    qed
  qed
  finally show ?thesis .
qed

lemma b64_value_code:
  "b64_value c =
     (let n = (of_char c :: nat) in
      if 65 \<le> n \<and> n \<le> 90 then Some (n - 65)
      else if 97 \<le> n \<and> n \<le> 122 then Some (n - 71)
      else if 48 \<le> n \<and> n \<le> 57 then Some (n + 4)
      else if n = 43 \<or> n = 45 then Some 62
      else if n = 47 \<or> n = 95 then Some 63
      else None)"
proof -
  have eq: "c = d \<longleftrightarrow> (of_char c :: nat) = of_char d" for d by simp
  show ?thesis
    unfolding b64_value_def Let_def
    by (simp only: eq [of "CHR ''+''"] eq [of "CHR ''-''"] eq [of "CHR ''/''"] eq [of "CHR ''_''"])
       simp
qed

lemma b64_value_char: "n < 64 \<Longrightarrow> b64_value (b64_char n) = Some n"
  by (auto simp: b64_value_code of_char_b64_char Let_def)

lemma b64_char_ascii: "n < 64 \<Longrightarrow> (of_char (b64_char n) :: nat) < 128"
  by (auto simp: of_char_b64_char)

lemma b64_char_not_special:
  "n < 64 \<Longrightarrow> b64_char n \<noteq> CHR ''='' \<and> b64_char n \<noteq> CHR ''/''"
proof -
  assume n: "n < 64"
  have eq: "c = d \<longleftrightarrow> (of_char c :: nat) = of_char d" for c d by simp
  show ?thesis
    by (simp only: eq [of "b64_char n"] of_char_b64_char [OF n]) auto
qed

lemma a2b_data_char:
  assumes "n < 64"
  shows "a2b_base64 q l p out (b64_char n # cs) =
     (if q = 0 then a2b_base64 1 n 0 out cs
      else if q = 1 then a2b_base64 2 (n mod 16) 0 (char_of (l * 4 + n div 16) # out) cs
      else if q = 2 then a2b_base64 3 (n mod 4) 0 (char_of (l * 16 + n div 4) # out) cs
      else a2b_base64 0 0 0 (char_of (l * 64 + n) # out) cs)"
  using b64_value_char [OF assms] b64_char_not_special [OF assms] by simp

lemma sextets:
  fixes x y z :: nat
  assumes "x < 256" "y < 256" "z < 256"
  shows "x div 4 < 64" "(x mod 4) * 16 + y div 16 < 64" "(y mod 16) * 4 + z div 64 < 64"
    "z mod 64 < 64" "(x mod 4) * 16 < 64" "(y mod 16) * 4 < 64"
  using assms by auto

lemma octet1:
  fixes x y :: nat
  assumes "y < 256"
  shows "(x div 4) * 4 + ((x mod 4) * 16 + y div 16) div 16 = x"
proof -
  have "y div 16 < 16" using assms by simp
  then have "((x mod 4) * 16 + y div 16) div 16 = x mod 4" by simp
  then show ?thesis by simp
qed

lemma octet2:
  fixes x y z :: nat
  assumes "y < 256" "z < 256"
  shows "(((x mod 4) * 16 + y div 16) mod 16) * 16 + ((y mod 16) * 4 + z div 64) div 4 = y"
proof -
  have a: "y div 16 < 16" using assms by simp
  have b: "z div 64 < 4" using assms by simp
  have "((x mod 4) * 16 + y div 16) mod 16 = y div 16" using a by simp
  moreover have "((y mod 16) * 4 + z div 64) div 4 = y mod 16" using b by simp
  ultimately show ?thesis by simp
qed

lemma octet3:
  fixes y z :: nat
  assumes "z < 256"
  shows "(((y mod 16) * 4 + z div 64) mod 4) * 64 + z mod 64 = z"
proof -
  have b: "z div 64 < 4" using assms by simp
  have "((y mod 16) * 4 + z div 64) mod 4 = z div 64" using b by simp
  then show ?thesis by simp
qed

lemma octet4:
  fixes x :: nat
  shows "(x div 4) * 4 + ((x mod 4) * 16) div 16 = x"
  by simp

lemma octet5:
  fixes x y :: nat
  assumes "y < 256"
  shows "(((x mod 4) * 16 + y div 16) mod 16) * 16 + ((y mod 16) * 4) div 4 = y"
proof -
  have a: "y div 16 < 16" using assms by simp
  have "((x mod 4) * 16 + y div 16) mod 16 = y div 16" using a by simp
  then show ?thesis by simp
qed

lemma a2b_pad:
  "a2b_base64 q l p out (CHR ''='' # cs) =
     (if q \<ge> 2 \<and> q + (p + 1) \<ge> 4 then Inr (rev out)
      else a2b_base64 q l (if q \<ge> 2 then p + 1 else p) out cs)"
  by simp

lemma a2b_Nil: "a2b_base64 0 l p out [] = Inr (rev out)"
  by simp

lemma a2b_encode:
  "a2b_base64 0 0 0 out (urlsafe_b64encode bs) = Inr (rev out @ bs)"
proof (induction bs arbitrary: out rule: urlsafe_b64encode.induct)
  case 1
  then show ?case by simp
next
  case (2 a)
  define x :: nat where "x = of_char a"
  have x: "x < 256" by (simp add: x_def)
  note s = sextets [OF x x x]
  have "urlsafe_b64encode [a] = [b64_char (x div 4), b64_char ((x mod 4) * 16), CHR ''='', CHR ''='']"
    by (simp add: Let_def x_def)
  then have "a2b_base64 0 0 0 out (urlsafe_b64encode [a])
      = Inr (rev (char_of ((x div 4) * 4 + ((x mod 4) * 16) div 16) # out))"
    by (simp add: a2b_data_char s a2b_pad del: a2b_base64.simps)
  then show ?case by (simp only: octet4) (simp add: x_def)
next
  case (3 a b)
  define x :: nat where "x = of_char a"
  define y :: nat where "y = of_char b"
  have x: "x < 256" and y: "y < 256" by (simp_all add: x_def y_def)
  note s = sextets [OF x y y]
  have "urlsafe_b64encode [a, b] =
     [b64_char (x div 4), b64_char ((x mod 4) * 16 + y div 16),
      b64_char ((y mod 16) * 4), CHR ''='']"
    by (simp add: Let_def x_def y_def)
  then have "a2b_base64 0 0 0 out (urlsafe_b64encode [a, b])
      = Inr (rev (char_of ((((x mod 4) * 16 + y div 16) mod 16) * 16 + ((y mod 16) * 4) div 4)
                  # char_of ((x div 4) * 4 + ((x mod 4) * 16 + y div 16) div 16) # out))"
    by (simp add: a2b_data_char s a2b_pad del: a2b_base64.simps)
  then show ?case by (simp only: octet1 [OF y] octet5 [OF y]) (simp add: x_def y_def)
next
  case (4 a b c rest)
  define x :: nat where "x = of_char a"
  define y :: nat where "y = of_char b"
  define z :: nat where "z = of_char c"
  have x: "x < 256" and y: "y < 256" and z: "z < 256" by (simp_all add: x_def y_def z_def)
  note s = sextets [OF x y z]
  have "urlsafe_b64encode (a # b # c # rest) =
     b64_char (x div 4) # b64_char ((x mod 4) * 16 + y div 16)
       # b64_char ((y mod 16) * 4 + z div 64) # b64_char (z mod 64) # urlsafe_b64encode rest"
    by (simp add: Let_def x_def y_def z_def)
  then have "a2b_base64 0 0 0 out (urlsafe_b64encode (a # b # c # rest))
      = a2b_base64 0 0 0
          (char_of ((((y mod 16) * 4 + z div 64) mod 4) * 64 + z mod 64)
           # char_of ((((x mod 4) * 16 + y div 16) mod 16) * 16 + ((y mod 16) * 4 + z div 64) div 4)
           # char_of ((x div 4) * 4 + ((x mod 4) * 16 + y div 16) div 16) # out)
          (urlsafe_b64encode rest)"
    by (simp add: a2b_data_char s del: a2b_base64.simps urlsafe_b64encode.simps)
  also have "\<dots> = a2b_base64 0 0 0 (c # b # a # out) (urlsafe_b64encode rest)"
    by (simp only: octet1 [OF y] octet2 [OF y z] octet3 [OF z]) (simp add: x_def y_def z_def)
  also have "\<dots> = Inr (rev (c # b # a # out) @ rest)"
    by (rule "4.IH" [OF refl refl refl])
  finally show ?case by simp
qed

lemma b64_roundtrip: "urlsafe_b64decode (urlsafe_b64encode bs) = Inr bs"
  using a2b_encode [of "[]" bs] by (simp add: urlsafe_b64decode_def)

lemma b64_safe_char: "n < 64 \<Longrightarrow> b64_safe (b64_char n)"
  by (simp add: b64_safe_def b64_char_ascii b64_char_not_special)

lemma b64_encode_safe: "list_all b64_safe (urlsafe_b64encode bs)"
proof (induction bs rule: urlsafe_b64encode.induct)
  case 1
  then show ?case by simp
next
  case (2 a)
  have pad: "b64_safe (CHR ''='')" by (simp add: b64_safe_def)
  show ?case
    by (simp add: Let_def b64_safe_char pad sextets [of "of_char a" "of_char a" "of_char a"])
next
  case (3 a b)
  have pad: "b64_safe (CHR ''='')" by (simp add: b64_safe_def)
  show ?case
    by (simp add: Let_def b64_safe_char pad sextets [of "of_char a" "of_char b" "of_char b"])
next
  case (4 a b c rest)
  then show ?case
    by (simp add: Let_def b64_safe_char sextets [of "of_char a" "of_char b" "of_char c"])
qed

section \<open>From the parsed payload to the result\<close>

lemma tracking_result_of_payload:
  assumes "payload_shaped d"
  shows "tracking_result_of_data c now req is_open (JObj d) =
     Inr \<lparr>is_open_tracking = is_open,
          is_click_tracking = (\<not> is_open),
          tracked_url = (case map_of d ''url'' of None \<Rightarrow> JNull | Some u \<Rightarrow> u),
          result_webhook_url =
            (if include_webhook_url c
             then (case map_of d ''webhook'' of None \<Rightarrow> JNull | Some w \<Rightarrow> w)
             else (case webhook_url c of None \<Rightarrow> JNull | Some w \<Rightarrow> JStr w)),
          metadata = dict_update (local_md c) (the_obj (payload_md d)),
          request_data = req,
          timestamp = now\<rparr>"
proof -
  obtain m where m: "payload_md d = JObj m"
    using assms by (auto simp: payload_shaped_def split: json.splits)
  have g: "data_get (JObj d) ''metadata'' (JObj []) = Inr (JObj m)"
    using m by (simp add: data_get_def payload_md_def)
  have l: "(if \<not> include_default_metadata c \<and> truthy_dict (default_metadata c)
            then dict_update [] (the (default_metadata c)) else []) = local_md c"
    by (cases "default_metadata c") (auto simp: local_md_def truthy_dict_def dict_update_def)
  show ?thesis
    unfolding tracking_result_of_data_def l Let_def g
    by (simp add: metadata_update_def m the_obj_def data_get_def)
qed

lemma result_flags:
  "tracking_result_of_data c now req is_open data = Inr r
   \<Longrightarrow> is_open_tracking r = is_open \<and> is_click_tracking r = (\<not> is_open)
       \<and> request_data r = req \<and> timestamp r = now"
  unfolding tracking_result_of_data_def Let_def
  by (auto split: sum.splits if_splits)

lemma shaped_get_data_to_embed: "payload_shaped (get_data_to_embed c u extra)"
  by (simp add: payload_shaped_def payload_md_def get_data_to_embed_metadata)

section \<open>Facts about the reference library\<close>

lemma py_lib_simps:
  "json_dumps py_lib = py_dumps" "json_loads py_lib = py_loads"
  "str_encode py_lib = py_str_encode" "bytes_decode py_lib = py_bytes_decode"
  "urljoin py_lib = py_urljoin" "Fernet py_lib = toy_Fernet"
  "fernet_encrypt py_lib = toy_encrypt" "fernet_decrypt py_lib = toy_decrypt"
  by (simp_all add: py_lib_def)

lemma utf8_encode_ascii: "is_ascii s \<Longrightarrow> concat (map utf8_encode_char s) = s"
  by (induction s) (simp_all add: is_ascii_def utf8_encode_char_def)

lemma utf8_decode_ascii: "is_ascii s \<Longrightarrow> utf8_decode s = Inr s"
  by (induction s) (simp_all add: is_ascii_def)

lemma py_lib_transparent:
  assumes "is_ascii s" "enc = ''ascii'' \<or> enc = ''latin-1'' \<or> enc = ''utf-8''"
  shows "transparent py_lib enc s"
  using assms
  by (auto simp: transparent_def py_lib_def py_str_encode_def py_bytes_decode_def
        utf8_encode_ascii utf8_decode_ascii)

lemma b64_is_ascii: "is_ascii (urlsafe_b64encode bs)"
  using b64_encode_safe [of bs] by (simp add: is_ascii_def list_all_iff b64_safe_def)

lemma b64_no_slash: "\<not> startswith (urlsafe_b64encode bs) ''/''"
  using b64_encode_safe [of bs]
  by (cases "urlsafe_b64encode bs") (auto simp: startswith_def b64_safe_def)

lemma strip_no_slash: "\<not> startswith s ''/'' \<Longrightarrow> strip_leading_slash s = s"
  by (simp add: strip_leading_slash_def)

lemma toy_Fernet_key_A: "toy_Fernet key_A = Inr raw_A"
  unfolding toy_Fernet_def key_A_def raw_A_def urlsafe_b64decode_def by code_simp









section \<open>Round trip through the codec\<close>

lemma encode_token:
  assumes "transparent L (encoding c) (json_dumps L (JObj p))"
    and "transparent L (encoding c) (token_of L c now iv p)"
  shows "get_url_encoded_data_str L c now iv p = Inr (token_of L c now iv p)"
  using assms
  by (auto simp: get_url_encoded_data_str_def token_of_def transparent_def split: option.splits)

lemma decode_token:
  assumes keys: "map_option handle (encryption_key c') = map_option handle (encryption_key c)"
    and j: "json_loads L (json_dumps L (JObj p)) = Inr (JObj p)"
    and tj: "transparent L (encoding c') (json_dumps L (JObj p))"
    and tt: "transparent L (encoding c') (token_of L c now iv p)"
    and ciph: "\<forall>f. encryption_key c = Some f \<longrightarrow>
        fernet_decrypt L (handle f) (token_of L c now iv p) = Inr (json_dumps L (JObj p))"
  shows "decode_segment L c' (token_of L c now iv p) = Inr (JObj p)"
proof (cases "encryption_key c")
  case None
  with keys have n': "encryption_key c' = None" by simp
  have t: "token_of L c now iv p = urlsafe_b64encode (json_dumps L (JObj p))"
    using None by (simp add: token_of_def)
  show ?thesis
    using tt tj j unfolding decode_segment_def n' t transparent_def
    by (simp add: b64_roundtrip)
next
  case (Some f)
  with keys obtain f' where f': "encryption_key c' = Some f'" "handle f' = handle f" by auto
  from ciph Some have d: "fernet_decrypt L (handle f) (token_of L c now iv p)
      = Inr (json_dumps L (JObj p))" by simp
  show ?thesis
    using tt tj j d unfolding decode_segment_def f'(1) transparent_def
    by (simp add: f'(2))
qed

lemma plain_decode:
  assumes "encryption_key c = None" "encoding c = ''utf-8''"
    and "py_loads (py_dumps (JObj p)) = Inr (JObj p)" "is_ascii (py_dumps (JObj p))"
  shows "decode_segment py_lib c (strip_leading_slash (urlsafe_b64encode (py_dumps (JObj p))))
           = Inr (JObj p)"
proof -
  have t: "token_of py_lib c 0 [] p = urlsafe_b64encode (py_dumps (JObj p))"
    using assms(1) by (simp add: token_of_def py_lib_simps del: py_dumps.simps)
  have "decode_segment py_lib c (token_of py_lib c 0 [] p) = Inr (JObj p)"
  proof (rule decode_token)
    show "map_option handle (encryption_key c) = map_option handle (encryption_key c)" by simp
    show "json_loads py_lib (json_dumps py_lib (JObj p)) = Inr (JObj p)"
      by (simp only: py_lib_simps assms(3))
    show "transparent py_lib (encoding c) (json_dumps py_lib (JObj p))"
      unfolding assms(2) py_lib_simps by (rule py_lib_transparent) (simp_all only: assms(4) simp_thms)
    show "transparent py_lib (encoding c) (token_of py_lib c 0 [] p)"
      unfolding assms(2) t by (rule py_lib_transparent) (simp_all only: b64_is_ascii simp_thms)
    show "\<forall>f. encryption_key c = Some f \<longrightarrow>
        fernet_decrypt py_lib (handle f) (token_of py_lib c 0 [] p)
          = Inr (json_dumps py_lib (JObj p))"
      by (simp add: assms(1))
  qed
  then show ?thesis
    by (simp only: t strip_no_slash [OF b64_no_slash])
qed




section \<open>Resolving the tracking result\<close>

lemma local_md_lookup:
  assumes "distinct (map fst dm)" "default_metadata c = Some dm"
  shows "map_of (local_md c) k = (if include_default_metadata c then None else map_of dm k)"
  using assms by (simp add: local_md_def map_of_dict_update_Nil)

lemma loads_shape: "py_loads (py_dumps (JObj shape_payload)) = Inr (JObj shape_payload)"
  unfolding shape_payload_def by code_simp

lemma ascii_shape: "is_ascii (py_dumps (JObj shape_payload))"
  unfolding shape_payload_def by code_simp

text \<open>
  Claim C3. For a payload whose metadata, if present, is an object,
  \<open>get_tracking_result\<close> returns a result whose metadata is the local default
  metadata exactly when \<open>include_default_metadata\<close> is false (the empty dict
  otherwise), overlaid by the metadata of the payload; whose webhook URL is the
  \<open>webhook\<close> of the payload when \<open>include_webhook_url\<close> is true and the local
  \<open>webhook_url\<close> otherwise; whose tracked URL is the \<open>url\<close> of the payload; and
  whose flags are \<open>is_open\<close> and its negation, so that exactly one of them is
  true. With local default metadata \<open>{"a": 1}\<close> that is not included and payload
  metadata \<open>{"b": 3}\<close> the result metadata is \<open>{"a": 1, "b": 3}\<close>.
\<close>

theorem tracking_result_resolution:
  "(payload_shaped d \<longrightarrow>
      tracking_result_of_data c now req is_open (JObj d) =
        Inr \<lparr>is_open_tracking = is_open,
             is_click_tracking = (\<not> is_open),
             tracked_url = (case map_of d ''url'' of None \<Rightarrow> JNull | Some u \<Rightarrow> u),
             result_webhook_url =
               (if include_webhook_url c
                then (case map_of d ''webhook'' of None \<Rightarrow> JNull | Some w \<Rightarrow> w)
                else (case webhook_url c of None \<Rightarrow> JNull | Some w \<Rightarrow> JStr w)),
             metadata = dict_update (local_md c) (the_obj (payload_md d)),
             request_data = req,
             timestamp = now\<rparr>)
   \<and> (decode_segment L c (strip_leading_slash path) = Inr data \<longrightarrow>
        get_tracking_result L c now path req is_open
          = tracking_result_of_data c now req is_open data)
   \<and> (tracking_result_of_data c now req is_open data = Inr r \<longrightarrow>
        is_open_tracking r = is_open \<and> is_click_tracking r = (\<not> is_open)
        \<and> is_open_tracking r \<noteq> is_click_tracking r)
   \<and> (distinct (map fst dm) \<and> distinct (map fst m) \<and> default_metadata c = Some dm \<longrightarrow>
        map_of (dict_update (local_md c) m) k =
          (case map_of m k of
             Some v \<Rightarrow> Some v
           | None \<Rightarrow> if include_default_metadata c then None else map_of dm k))
   \<and> tracking_result_of_data local_config now req is_open
         (JObj [(''metadata'', JObj [(''b'', JInt 3)])])
       = Inr \<lparr>is_open_tracking = is_open, is_click_tracking = (\<not> is_open),
              tracked_url = JNull, result_webhook_url = JNull,
              metadata = [(''a'', JInt 1), (''b'', JInt 3)],
              request_data = req, timestamp = now\<rparr>"
proof -
  have 1: "payload_shaped d \<longrightarrow>
      tracking_result_of_data c now req is_open (JObj d) =
        Inr \<lparr>is_open_tracking = is_open,
             is_click_tracking = (\<not> is_open),
             tracked_url = (case map_of d ''url'' of None \<Rightarrow> JNull | Some u \<Rightarrow> u),
             result_webhook_url =
               (if include_webhook_url c
                then (case map_of d ''webhook'' of None \<Rightarrow> JNull | Some w \<Rightarrow> w)
                else (case webhook_url c of None \<Rightarrow> JNull | Some w \<Rightarrow> JStr w)),
             metadata = dict_update (local_md c) (the_obj (payload_md d)),
             request_data = req,
             timestamp = now\<rparr>"
    using tracking_result_of_payload [of d c now req is_open] by blast
  have 2: "decode_segment L c (strip_leading_slash path) = Inr data \<longrightarrow>
        get_tracking_result L c now path req is_open
          = tracking_result_of_data c now req is_open data"
    by (simp add: get_tracking_result_def)
  have 3: "tracking_result_of_data c now req is_open data = Inr r \<longrightarrow>
        is_open_tracking r = is_open \<and> is_click_tracking r = (\<not> is_open)
        \<and> is_open_tracking r \<noteq> is_click_tracking r"
    using result_flags [of c now req is_open data r] by auto
  have 4: "distinct (map fst dm) \<and> distinct (map fst m) \<and> default_metadata c = Some dm \<longrightarrow>
        map_of (dict_update (local_md c) m) k =
          (case map_of m k of
             Some v \<Rightarrow> Some v
           | None \<Rightarrow> if include_default_metadata c then None else map_of dm k)"
  proof (intro impI, elim conjE)
    assume a: "distinct (map fst dm)" "distinct (map fst m)" "default_metadata c = Some dm"
    show "map_of (dict_update (local_md c) m) k =
          (case map_of m k of
             Some v \<Rightarrow> Some v
           | None \<Rightarrow> if include_default_metadata c then None else map_of dm k)"
      by (simp add: dict_update_lookup [OF a(2)] local_md_lookup [OF a(1,3)]
               split: option.splits)
  qed
  have sh: "payload_shaped [(''metadata'', JObj [(''b'', JInt 3)])]"
    by (simp add: payload_shaped_def payload_md_def)
  have 5: "tracking_result_of_data local_config now req is_open
         (JObj [(''metadata'', JObj [(''b'', JInt 3)])])
       = Inr \<lparr>is_open_tracking = is_open, is_click_tracking = (\<not> is_open),
              tracked_url = JNull, result_webhook_url = JNull,
              metadata = [(''a'', JInt 1), (''b'', JInt 3)],
              request_data = req, timestamp = now\<rparr>"
    unfolding tracking_result_of_payload [OF sh]
    by (simp add: local_config_def default_attributes_def local_md_def payload_md_def
          the_obj_def dict_update_def)
  from 1 2 3 4 5 show ?thesis by blast
qed

theorem tracking_result_resolution_witness:
  "payload_shaped shape_payload
   \<and> decode_segment py_lib local_config
        (strip_leading_slash (urlsafe_b64encode (py_dumps (JObj shape_payload))))
       = Inr (JObj shape_payload)
   \<and> distinct (map fst [(''a'', JInt 1)]) \<and> distinct (map fst [(''b'', JInt 3)])
   \<and> default_metadata local_config = Some [(''a'', JInt 1)]
   \<and> get_tracking_result py_lib local_config 1700000060
        (urlsafe_b64encode (py_dumps (JObj shape_payload))) None True
       = Inr \<lparr>is_open_tracking = True, is_click_tracking = False,
              tracked_url = JNull, result_webhook_url = JNull,
              metadata = [(''a'', JInt 1), (''b'', JInt 3)],
              request_data = None, timestamp = 1700000060\<rparr>
   \<and> map_of (dict_update (local_md local_config) [(''b'', JInt 3)]) ''a'' = Some (JInt 1)"
proof -
  have c: "encryption_key local_config = None" "encoding local_config = ''utf-8''"
    "default_metadata local_config = Some [(''a'', JInt 1)]"
    "\<not> include_default_metadata local_config"
    by (simp_all add: local_config_def default_attributes_def)
  have sh: "payload_shaped shape_payload"
    by (simp add: shape_payload_def payload_shaped_def payload_md_def)
  have d: "decode_segment py_lib local_config
        (strip_leading_slash (urlsafe_b64encode (py_dumps (JObj shape_payload))))
       = Inr (JObj shape_payload)"
    using c(1,2) loads_shape ascii_shape by (rule plain_decode)
  note t = tracking_result_resolution
      [where d = shape_payload and c = local_config and L = py_lib
         and path = "urlsafe_b64encode (py_dumps (JObj shape_payload))"
         and data = "JObj shape_payload" and now = 1700000060 and req = None
         and is_open = True and dm = "[(''a'', JInt 1)]" and m = "[(''b'', JInt 3)]"
         and k = "''a''"]
  from t d have g: "get_tracking_result py_lib local_config 1700000060
        (urlsafe_b64encode (py_dumps (JObj shape_payload))) None True
      = tracking_result_of_data local_config 1700000060 None True (JObj shape_payload)"
    by blast
  from t have e: "tracking_result_of_data local_config 1700000060 None True (JObj shape_payload)
      = Inr \<lparr>is_open_tracking = True, is_click_tracking = False,
              tracked_url = JNull, result_webhook_url = JNull,
              metadata = [(''a'', JInt 1), (''b'', JInt 3)],
              request_data = None, timestamp = 1700000060\<rparr>"
    unfolding shape_payload_def by simp
  from t c(3) have l: "map_of (dict_update (local_md local_config) [(''b'', JInt 3)]) ''a''
      = Some (JInt 1)"
    using c(4) by simp
  show ?thesis using sh d c(3) g e l by simp
qed

section \<open>Empty inputs\<close>

lemma embedded_md_empty_iff:
  "embedded_md c extra = [] \<longleftrightarrow>
     (\<not> include_default_metadata c \<or> \<not> truthy_dict (default_metadata c))
     \<and> \<not> truthy_dict extra"
  by (cases "default_metadata c"; cases extra)
     (auto simp: embedded_md_def dict_update_empty_iff truthy_dict_def)

text \<open>
  Claim C10. \<open>get_data_to_embed\<close> tests its inputs by truthiness: an empty
  string as tracked URL gives a payload without \<open>url\<close>, from which decoding gets
  \<open>tracked_url = None\<close>; merged metadata that is empty gives no \<open>metadata\<close> key;
  an empty webhook URL gives no \<open>webhook\<close> key, whatever \<open>include_webhook_url\<close>
  is.
\<close>

theorem empty_inputs_are_omitted:
  "map_of (get_data_to_embed c (Some []) extra) ''url'' = None
   \<and> (\<exists>r. tracking_result_of_data c' now req is_open
              (JObj (get_data_to_embed c (Some []) extra)) = Inr r
          \<and> tracked_url r = JNull)
   \<and> ((\<not> include_default_metadata c \<or> \<not> truthy_dict (default_metadata c))
        \<and> \<not> truthy_dict extra
        \<longrightarrow> map_of (get_data_to_embed c u extra) ''metadata'' = None)
   \<and> (webhook_url c = Some [] \<longrightarrow> map_of (get_data_to_embed c u extra) ''webhook'' = None)"
proof -
  have 1: "map_of (get_data_to_embed c (Some []) extra) ''url'' = None"
    by (simp add: get_data_to_embed_url truthy_str_def)
  have 2: "\<exists>r. tracking_result_of_data c' now req is_open
              (JObj (get_data_to_embed c (Some []) extra)) = Inr r
          \<and> tracked_url r = JNull"
    unfolding tracking_result_of_payload [OF shaped_get_data_to_embed]
    by (simp add: 1)
  have 3: "(\<not> include_default_metadata c \<or> \<not> truthy_dict (default_metadata c))
        \<and> \<not> truthy_dict extra
        \<longrightarrow> map_of (get_data_to_embed c u extra) ''metadata'' = None"
    using embedded_md_empty_iff [of c extra] by (simp add: get_data_to_embed_metadata)
  have 4: "webhook_url c = Some [] \<longrightarrow> map_of (get_data_to_embed c u extra) ''webhook'' = None"
    by (simp add: get_data_to_embed_webhook truthy_str_def)
  from 1 2 3 4 show ?thesis by blast
qed

theorem empty_inputs_are_omitted_witness:
  "include_webhook_url empty_webhook_config \<and> webhook_url empty_webhook_config = Some []
   \<and> include_default_metadata empty_webhook_config
   \<and> \<not> truthy_dict (default_metadata empty_webhook_config) \<and> \<not> truthy_dict (Some [])
   \<and> get_data_to_embed empty_webhook_config (Some []) (Some []) = []
   \<and> map_of (get_data_to_embed empty_webhook_config (Some []) (Some [])) ''metadata'' = None
   \<and> map_of (get_data_to_embed empty_webhook_config (Some []) (Some [])) ''webhook'' = None"
  using empty_inputs_are_omitted
          [of empty_webhook_config "Some []" plain_config 0 None False "Some []"]
  by (simp add: empty_webhook_config_def default_attributes_def truthy_dict_def
        truthy_str_def get_data_to_embed_def dict_update_def)

section \<open>Merging a configuration with overrides\<close>

lemma default_key_None: "(default_attributes :: 'k configuration)\<lparr>encryption_key := None\<rparr> = default_attributes"
  by (simp add: default_attributes_def)

lemma cache_eq:
  assumes "objs h r = Some c"
  shows "cache_encryption_key L h r =
     (if truthy_str (encryption_bytestring_key c) then
        (case Fernet L (the (encryption_bytestring_key c)) of
           Inl e \<Rightarrow> Inl e
         | Inr k \<Rightarrow>
             Inr (h\<lparr>objs := (objs h)(r \<mapsto> c\<lparr>encryption_key :=
                                   Some \<lparr>obj_id = next_obj h, handle = k\<rparr>\<rparr>),
                     next_obj := Suc (next_obj h)\<rparr>))
      else Inr (h\<lparr>objs := (objs h)(r \<mapsto> c\<lparr>encryption_key := None\<rparr>)\<rparr>))"
  using assms
  by (simp add: cache_encryption_key_def deref_def store_def Let_def split: sum.splits)

lemma Configuration_default:
  "Configuration L h default_attributes =
     Inr (next_obj h,
          h\<lparr>objs := (objs h)(next_obj h \<mapsto> default_attributes), next_obj := Suc (next_obj h)\<rparr>)"
proof -
  let ?h1 = "(store h (next_obj h) (default_attributes\<lparr>encryption_key := None\<rparr>))
               \<lparr>next_obj := Suc (next_obj h)\<rparr>"
  have o: "objs ?h1 (next_obj h) = Some default_attributes"
    by (simp add: store_def default_key_None)
  have k: "\<not> truthy_str (encryption_bytestring_key (default_attributes :: 'a configuration))"
    by (simp add: default_attributes_def truthy_str_def)
  show ?thesis
    unfolding Configuration_def Let_def cache_eq [OF o]
    by (simp add: k store_def default_key_None)
qed

lemma deepcopy_eq:
  assumes "objs h self = Some c" "self < next_obj h"
  shows "deepcopy L h self =
     Inr (next_obj h,
          h\<lparr>objs := (objs h)(next_obj h \<mapsto> c\<lparr>encryption_key := None\<rparr>),
            next_obj := Suc (next_obj h)\<rparr>)"
proof -
  let ?n = "next_obj h"
  let ?h1 = "h\<lparr>objs := (objs h)(?n \<mapsto> default_attributes), next_obj := Suc ?n\<rparr>"
  have ne: "self \<noteq> ?n" using assms(2) by simp
  have d1: "deref ?h1 self = c" using assms(1) ne by (simp add: deref_def)
  have d2: "encryption_key (deref ?h1 ?n) = None"
    by (simp add: deref_def default_attributes_def)
  have "deepcopy L h self = Inr (?n, store ?h1 ?n (c\<lparr>encryption_key := None\<rparr>))"
    unfolding deepcopy_def Configuration_default by (simp only: sum.case prod.case d1 d2)
  then show ?thesis by (simp add: store_def)
qed

lemma setattr_key_irrelevant:
  "(setattr_kwarg kw (c\<lparr>encryption_key := y\<rparr>))\<lparr>encryption_key := x\<rparr>
     = (setattr_kwarg kw c)\<lparr>encryption_key := x\<rparr>"
  by (cases kw) simp_all

lemma fold_key_irrelevant:
  "(fold setattr_kwarg kws (c\<lparr>encryption_key := y\<rparr>))\<lparr>encryption_key := x\<rparr>
     = (fold setattr_kwarg kws c)\<lparr>encryption_key := x\<rparr>"
proof (induction kws arbitrary: c y)
  case Nil
  then show ?case by simp
next
  case (Cons kw kws)
  have "(fold setattr_kwarg kws (setattr_kwarg kw (c\<lparr>encryption_key := y\<rparr>)))\<lparr>encryption_key := x\<rparr>
      = (fold setattr_kwarg kws ((setattr_kwarg kw (c\<lparr>encryption_key := y\<rparr>))\<lparr>encryption_key := None\<rparr>))\<lparr>encryption_key := x\<rparr>"
    by (simp only: Cons.IH)
  also have "\<dots> = (fold setattr_kwarg kws ((setattr_kwarg kw c)\<lparr>encryption_key := None\<rparr>))\<lparr>encryption_key := x\<rparr>"
    by (simp only: setattr_key_irrelevant)
  also have "\<dots> = (fold setattr_kwarg kws (setattr_kwarg kw c))\<lparr>encryption_key := x\<rparr>"
    by (simp only: Cons.IH)
  finally show ?case by simp
qed

lemma key_of_update:
  "encryption_bytestring_key (c\<lparr>encryption_key := x\<rparr>) = encryption_bytestring_key c"
  by simp

lemma fold_bytestring_key:
  "encryption_bytestring_key (fold setattr_kwarg kws (c\<lparr>encryption_key := y\<rparr>))
     = encryption_bytestring_key (fold setattr_kwarg kws c)"
proof -
  have "encryption_bytestring_key ((fold setattr_kwarg kws (c\<lparr>encryption_key := y\<rparr>))\<lparr>encryption_key := None\<rparr>)
      = encryption_bytestring_key ((fold setattr_kwarg kws c)\<lparr>encryption_key := None\<rparr>)"
    by (simp only: fold_key_irrelevant)
  then show ?thesis by (simp only: key_of_update)
qed

lemma setattr_loop_inside:
  "list_all (\<lambda>kw. \<not> outside_model kw) kws
   \<Longrightarrow> setattr_loop kws c = Inr (fold setattr_kwarg kws c)"
  by (induction kws arbitrary: c) simp_all



lemma merge_eq:
  assumes "objs h self = Some c" "self < next_obj h"
    and inside: "list_all (\<lambda>kw. \<not> outside_model kw) kws"
  shows "merge_with_kwargs L h self kws =
     (if truthy_str (encryption_bytestring_key (fold setattr_kwarg kws c)) then
        (case Fernet L (the (encryption_bytestring_key (fold setattr_kwarg kws c))) of
           Inl e \<Rightarrow> Inl e
         | Inr k \<Rightarrow>
             Inr (next_obj h,
                  h\<lparr>objs := (objs h)(next_obj h \<mapsto>
                         (fold setattr_kwarg kws c)\<lparr>encryption_key :=
                            Some \<lparr>obj_id = Suc (next_obj h), handle = k\<rparr>\<rparr>),
                    next_obj := Suc (Suc (next_obj h))\<rparr>))
      else Inr (next_obj h,
                h\<lparr>objs := (objs h)(next_obj h \<mapsto>
                       (fold setattr_kwarg kws c)\<lparr>encryption_key := None\<rparr>),
                  next_obj := Suc (next_obj h)\<rparr>))"
proof -
  let ?n = "next_obj h"
  let ?h1 = "h\<lparr>objs := (objs h)(?n \<mapsto> c\<lparr>encryption_key := None\<rparr>), next_obj := Suc ?n\<rparr>"
  let ?m0 = "fold setattr_kwarg kws (c\<lparr>encryption_key := None\<rparr>)"
  let ?h2 = "store ?h1 ?n ?m0"
  have d1: "deref ?h1 ?n = c\<lparr>encryption_key := None\<rparr>" by (simp add: deref_def)
  have o2: "objs ?h2 ?n = Some ?m0" by (simp add: store_def)
  have n2: "next_obj ?h2 = Suc ?n" by (simp add: store_def)
  have u: "(objs ?h2)(?n \<mapsto> x) = (objs h)(?n \<mapsto> x)" for x by (simp add: store_def)
  have e: "?h2\<lparr>objs := ob, next_obj := nx\<rparr> = h\<lparr>objs := ob, next_obj := nx\<rparr>" for ob nx
    by (simp add: store_def)
  have e': "?h2\<lparr>objs := ob\<rparr> = h\<lparr>objs := ob, next_obj := Suc ?n\<rparr>" for ob
    by (simp add: store_def)
  have fk: "encryption_bytestring_key ?m0 = encryption_bytestring_key (fold setattr_kwarg kws c)"
    by (rule fold_bytestring_key)
  have fm: "?m0\<lparr>encryption_key := x\<rparr> = (fold setattr_kwarg kws c)\<lparr>encryption_key := x\<rparr>" for x
    by (rule fold_key_irrelevant)
  have c2: "cache_encryption_key L ?h2 ?n =
     (if truthy_str (encryption_bytestring_key (fold setattr_kwarg kws c)) then
        (case Fernet L (the (encryption_bytestring_key (fold setattr_kwarg kws c))) of
           Inl e \<Rightarrow> Inl e
         | Inr k \<Rightarrow>
             Inr (h\<lparr>objs := (objs h)(?n \<mapsto>
                         (fold setattr_kwarg kws c)\<lparr>encryption_key :=
                            Some \<lparr>obj_id = Suc ?n, handle = k\<rparr>\<rparr>),
                    next_obj := Suc (Suc ?n)\<rparr>))
      else Inr (h\<lparr>objs := (objs h)(?n \<mapsto> (fold setattr_kwarg kws c)\<lparr>encryption_key := None\<rparr>),
                  next_obj := Suc ?n\<rparr>))"
    unfolding cache_eq [OF o2] by (simp only: n2 u e e' fk fm) (simp cong: sum.case_cong)
  have sl: "setattr_loop kws (c\<lparr>encryption_key := None\<rparr>) = Inr ?m0"
    using inside by (rule setattr_loop_inside)
  have "merge_with_kwargs L h self kws =
      (case cache_encryption_key L ?h2 ?n of Inl e \<Rightarrow> Inl e | Inr h3 \<Rightarrow> Inr (?n, h3))"
    unfolding merge_with_kwargs_def deepcopy_eq [OF assms(1,2)] Let_def
    by (simp only: sum.case prod.case d1 sl)
  then show ?thesis
    unfolding c2 by (simp split: sum.splits)
qed

lemma holds_setattr_self: "holds kw (setattr_kwarg kw c)"
  by (cases kw) simp_all

lemma holds_setattr_other:
  "kw_name kw0 \<noteq> kw_name kw \<Longrightarrow> holds kw0 (setattr_kwarg kw c) = holds kw0 c"
  by (cases kw; cases kw0) simp_all

lemma holds_fold_other:
  "\<forall>kw \<in> set kws. kw_name kw0 \<noteq> kw_name kw
   \<Longrightarrow> holds kw0 (fold setattr_kwarg kws c) = holds kw0 c"
proof (induction kws arbitrary: c)
  case Nil
  then show ?case by simp
next
  case (Cons kw kws)
  from Cons.prems have 1: "kw_name kw0 \<noteq> kw_name kw"
    and 2: "\<forall>kw \<in> set kws. kw_name kw0 \<noteq> kw_name kw" by simp_all
  have "holds kw0 (fold setattr_kwarg kws (setattr_kwarg kw c)) = holds kw0 (setattr_kwarg kw c)"
    using 2 by (rule Cons.IH)
  also have "\<dots> = holds kw0 c" using 1 by (rule holds_setattr_other)
  finally show ?case by simp
qed

lemma holds_fold_in:
  "distinct (map kw_name kws) \<Longrightarrow> kw \<in> set kws \<Longrightarrow> holds kw (fold setattr_kwarg kws c)"
proof (induction kws arbitrary: c)
  case Nil
  then show ?case by simp
next
  case (Cons k1 kws)
  show ?case
  proof (cases "kw = k1")
    case True
    from Cons.prems(1) have "\<forall>k \<in> set kws. kw_name k1 \<noteq> kw_name k" by auto
    then have "holds k1 (fold setattr_kwarg kws (setattr_kwarg k1 c)) = holds k1 (setattr_kwarg k1 c)"
      by (rule holds_fold_other)
    then show ?thesis using True by (simp add: holds_setattr_self)
  next
    case False
    with Cons.prems have "distinct (map kw_name kws)" "kw \<in> set kws" by simp_all
    then have "holds kw (fold setattr_kwarg kws (setattr_kwarg k1 c))" by (rule Cons.IH)
    then show ?thesis by simp
  qed
qed

lemma holds_key_update:
  "\<forall>v. kw \<noteq> Kw_encryption_key v \<Longrightarrow> holds kw (c\<lparr>encryption_key := x\<rparr>) = holds kw c"
  by (cases kw) simp_all

lemma heap_ok_self: "heap_ok h \<Longrightarrow> objs h self = Some c \<Longrightarrow> self < next_obj h"
  by (auto simp: heap_ok_def)

lemma heap_ok_key:
  "heap_ok h \<Longrightarrow> objs h self = Some c \<Longrightarrow> encryption_key c = Some f \<Longrightarrow> obj_id f < next_obj h"
  by (auto simp: heap_ok_def)

lemma heap_ok_extend:
  assumes "heap_ok h" "n = next_obj h" "n < n'"
    and "\<forall>f. encryption_key c' = Some f \<longrightarrow> obj_id f < n'"
  shows "heap_ok (h\<lparr>objs := (objs h)(n \<mapsto> c'), next_obj := n'\<rparr>)"
  unfolding heap_ok_def
proof (intro allI impI)
  fix r c0
  assume a: "objs (h\<lparr>objs := (objs h)(n \<mapsto> c'), next_obj := n'\<rparr>) r = Some c0"
  show "r < next_obj (h\<lparr>objs := (objs h)(n \<mapsto> c'), next_obj := n'\<rparr>) \<and>
       (\<forall>f. encryption_key c0 = Some f \<longrightarrow>
            obj_id f < next_obj (h\<lparr>objs := (objs h)(n \<mapsto> c'), next_obj := n'\<rparr>))"
  proof (cases "r = n")
    case True
    with a have "c0 = c'" by simp
    with True assms(3,4) show ?thesis by simp
  next
    case False
    with a have o: "objs h r = Some c0" by simp
    from heap_ok_self [OF assms(1) o] assms(2,3) have "r < n'" by simp
    moreover have "obj_id f < n'" if "encryption_key c0 = Some f" for f
      using heap_ok_key [OF assms(1) o that] assms(2,3) by simp
    ultimately show ?thesis by simp
  qed
qed

lemma merge_post_intro:
  assumes ok: "heap_ok h" and self: "objs h self = Some c"
    and key: "if truthy_str (encryption_bytestring_key (fold setattr_kwarg kws c))
              then \<exists>k. Fernet L (the (encryption_bytestring_key (fold setattr_kwarg kws c))) = Inr k
                     \<and> ek = Some \<lparr>obj_id = Suc (next_obj h), handle = k\<rparr>
              else ek = None"
    and n': "next_obj h < n'" "\<forall>f. ek = Some f \<longrightarrow> obj_id f < n'"
  shows "merge_post L h self c kws (next_obj h)
           (h\<lparr>objs := (objs h)(next_obj h \<mapsto> (fold setattr_kwarg kws c)\<lparr>encryption_key := ek\<rparr>),
              next_obj := n'\<rparr>)"
proof -
  let ?n = "next_obj h"
  let ?c' = "(fold setattr_kwarg kws c)\<lparr>encryption_key := ek\<rparr>"
  let ?h' = "h\<lparr>objs := (objs h)(?n \<mapsto> ?c'), next_obj := n'\<rparr>"
  have lt: "self < ?n" using ok self by (rule heap_ok_self)
  have fresh: "objs h ?n = None"
  proof (cases "objs h ?n")
    case None
    then show ?thesis .
  next
    case (Some c0)
    from heap_ok_self [OF ok Some] show ?thesis by simp
  qed
  have frame: "\<forall>r0. r0 \<noteq> ?n \<longrightarrow> objs ?h' r0 = objs h r0" by simp
  have same: "objs ?h' self = Some c" using self lt by simp
  have ok': "heap_ok ?h'"
    using ok refl n'(1) by (rule heap_ok_extend) (use n'(2) in simp)
  have new: "objs ?h' ?n = Some ?c'" by simp
  have eq: "?c'\<lparr>encryption_key := None\<rparr> = (fold setattr_kwarg kws c)\<lparr>encryption_key := None\<rparr>"
    by simp
  have named: "\<forall>kw. distinct (map kw_name kws) \<and> kw \<in> set kws
                      \<and> (\<forall>v. kw \<noteq> Kw_encryption_key v) \<longrightarrow> holds kw ?c'"
    by (auto simp: holds_key_update holds_fold_in)
  have other: "\<forall>kw. (\<forall>k \<in> set kws. kw_name kw \<noteq> kw_name k)
                      \<and> (\<forall>v. kw \<noteq> Kw_encryption_key v) \<longrightarrow> holds kw ?c' = holds kw c"
    by (auto simp: holds_key_update holds_fold_other)
  have k': "if truthy_str (encryption_bytestring_key ?c')
                then \<exists>k. Fernet L (the (encryption_bytestring_key ?c')) = Inr k
                       \<and> encryption_key ?c' = Some \<lparr>obj_id = Suc ?n, handle = k\<rparr>
                else encryption_key ?c' = None"
    using key by simp
  have distinct_key: "\<forall>f f'. encryption_key c = Some f \<and> encryption_key ?c' = Some f'
                  \<longrightarrow> obj_id f' \<noteq> obj_id f"
  proof (intro allI impI, elim conjE)
    fix f f'
    assume a: "encryption_key c = Some f" "encryption_key ?c' = Some f'"
    from heap_ok_key [OF ok self a(1)] have 1: "obj_id f < ?n" .
    from a(2) have "ek = Some f'" by simp
    with key have "obj_id f' = Suc ?n" by (auto split: if_splits)
    with 1 show "obj_id f' \<noteq> obj_id f" by simp
  qed
  show ?thesis
    unfolding merge_post_def
    using fresh frame same ok' new eq named other k' distinct_key by blast
qed

lemma toy_Fernet_key_B: "toy_Fernet key_B = Inr raw_B"
  unfolding toy_Fernet_def key_B_def raw_B_def urlsafe_b64decode_def by code_simp

lemma merge_outcome:
  assumes ok: "heap_ok h" and self: "objs h self = Some c"
    and inside: "list_all (\<lambda>kw. \<not> outside_model kw) kws"
  shows "(\<forall>e. merge_with_kwargs L h self kws = Inl e \<longrightarrow>
            truthy_str (encryption_bytestring_key (fold setattr_kwarg kws c))
            \<and> Fernet L (the (encryption_bytestring_key (fold setattr_kwarg kws c))) = Inl e)
       \<and> (\<forall>r h'. merge_with_kwargs L h self kws = Inr (r, h') \<longrightarrow>
            merge_post L h self c kws r h')
       \<and> ((\<forall>e. Fernet L (the (encryption_bytestring_key (fold setattr_kwarg kws c))) \<noteq> Inl e)
            \<longrightarrow> (\<exists>r h'. merge_with_kwargs L h self kws = Inr (r, h')))"
proof -
  let ?m = "fold setattr_kwarg kws c"
  let ?n = "next_obj h"
  note me = merge_eq [OF self heap_ok_self [OF ok self] inside, of L]
  show ?thesis
  proof (cases "truthy_str (encryption_bytestring_key ?m)")
    case False
    have r: "merge_with_kwargs L h self kws =
        Inr (?n, h\<lparr>objs := (objs h)(?n \<mapsto> ?m\<lparr>encryption_key := None\<rparr>), next_obj := Suc ?n\<rparr>)"
      unfolding me using False by simp
    have p: "merge_post L h self c kws ?n
        (h\<lparr>objs := (objs h)(?n \<mapsto> ?m\<lparr>encryption_key := None\<rparr>), next_obj := Suc ?n\<rparr>)"
      using ok self by (rule merge_post_intro) (use False in simp_all)
    show ?thesis unfolding r using p by simp
  next
    case True
    show ?thesis
    proof (cases "Fernet L (the (encryption_bytestring_key ?m))")
      case (Inl e)
      have r: "merge_with_kwargs L h self kws = Inl e"
        unfolding me using True Inl by simp
      show ?thesis unfolding r using True Inl by simp
    next
      case (Inr k)
      have r: "merge_with_kwargs L h self kws =
          Inr (?n, h\<lparr>objs := (objs h)(?n \<mapsto>
                        ?m\<lparr>encryption_key := Some \<lparr>obj_id = Suc ?n, handle = k\<rparr>\<rparr>),
                     next_obj := Suc (Suc ?n)\<rparr>)"
        unfolding me using True Inr by simp
      have p: "merge_post L h self c kws ?n
          (h\<lparr>objs := (objs h)(?n \<mapsto>
                        ?m\<lparr>encryption_key := Some \<lparr>obj_id = Suc ?n, handle = k\<rparr>\<rparr>),
                     next_obj := Suc (Suc ?n)\<rparr>)"
        using ok self by (rule merge_post_intro) (use True Inr in simp_all)
      show ?thesis unfolding r using p by simp
    qed
  qed
qed

text \<open>
  Claim C6. In a well-formed store, and for overrides that are attributes of
  an instance (with values of the attribute's type) or names that no instance
  has (neither an attribute, nor a method, nor a name that starts with two
  underscores), \<open>merge_with_kwargs\<close> on an instance \<open>c\<close> returns a new instance
  that equals \<open>c\<close> except that the attributes named in the overrides are
  replaced; \<open>c\<close> and every other object of the store are unchanged; and the
  derived key of the result is computed anew from the
  \<open>encryption_bytestring_key\<close> of the result, in a \<open>Fernet\<close> object that the
  original does not share. The call fails only when that key is malformed, with
  the error of the cipher's constructor.
\<close>

theorem merge_with_kwargs_copy:
  assumes ok: "heap_ok h" and self: "objs h self = Some c"
    and inside: "list_all (\<lambda>kw. \<not> outside_model kw) kws"
  shows "(\<forall>e. merge_with_kwargs L h self kws = Inl e \<longrightarrow>
            truthy_str (encryption_bytestring_key (fold setattr_kwarg kws c))
            \<and> Fernet L (the (encryption_bytestring_key (fold setattr_kwarg kws c))) = Inl e)
       \<and> (\<forall>r h'. merge_with_kwargs L h self kws = Inr (r, h') \<longrightarrow>
            merge_post L h self c kws r h')
       \<and> ((\<forall>e. Fernet L (the (encryption_bytestring_key (fold setattr_kwarg kws c))) \<noteq> Inl e)
            \<longrightarrow> (\<exists>r h'. merge_with_kwargs L h self kws = Inr (r, h')))"
  using ok self inside by (rule merge_outcome)

theorem merge_with_kwargs_copy_witness:
  "heap_ok heap_A \<and> objs heap_A 0 = Some config_A
   \<and> list_all (\<lambda>kw. \<not> outside_model kw) merge_kwargs
   \<and> (\<exists>h'. merge_with_kwargs py_lib heap_A 0 merge_kwargs = Inr (2, h')
          \<and> merge_post py_lib heap_A 0 config_A merge_kwargs 2 h'
          \<and> objs h' 0 = Some config_A
          \<and> objs h' 2 = Some (config_A\<lparr>encryption_bytestring_key := Some key_B,
                                       webhook_url := Some ''https://hook.example'',
                                       encryption_key := Some \<lparr>obj_id = 3, handle = raw_B\<rparr>\<rparr>))"
proof -
  have ok: "heap_ok heap_A"
    by (simp add: heap_ok_def heap_A_def config_A_def default_attributes_def)
  have self: "objs heap_A 0 = Some config_A" by (simp add: heap_A_def)
  have m: "fold setattr_kwarg merge_kwargs config_A
      = config_A\<lparr>encryption_bytestring_key := Some key_B,
                 webhook_url := Some ''https://hook.example''\<rparr>"
    by (simp add: merge_kwargs_def)
  have t: "truthy_str (Some key_B)" by (simp add: truthy_str_def key_B_def)
  have n: "next_obj heap_A = 2" by (simp add: heap_A_def)
  have inside: "list_all (\<lambda>kw. \<not> outside_model kw) merge_kwargs"
    by (simp add: merge_kwargs_def attribute_names_def method_names_def startswith_def)
  have r: "merge_with_kwargs py_lib heap_A 0 merge_kwargs =
      Inr (2, heap_A\<lparr>objs := (objs heap_A)(2 \<mapsto>
                 config_A\<lparr>encryption_bytestring_key := Some key_B,
                          webhook_url := Some ''https://hook.example'',
                          encryption_key := Some \<lparr>obj_id = 3, handle = raw_B\<rparr>\<rparr>),
               next_obj := 4\<rparr>)"
    unfolding merge_eq [OF self heap_ok_self [OF ok self] inside] m n
    using t by (simp add: py_lib_simps toy_Fernet_key_B numeral_2_eq_2 eval_nat_numeral)
  from merge_with_kwargs_copy [OF ok self inside, of py_lib] r
  have p: "merge_post py_lib heap_A 0 config_A merge_kwargs 2
      (heap_A\<lparr>objs := (objs heap_A)(2 \<mapsto>
                 config_A\<lparr>encryption_bytestring_key := Some key_B,
                          webhook_url := Some ''https://hook.example'',
                          encryption_key := Some \<lparr>obj_id = 3, handle = raw_B\<rparr>\<rparr>),
               next_obj := 4\<rparr>)"
    by blast
  show ?thesis
    using ok self inside r p by (simp add: heap_A_def)
qed

section \<open>The link filter\<close>

lemma valid_link_eq:
  "valid_link link (Some c) \<longleftrightarrow>
     scheme_ok link
     \<and> \<not> (truthy_str (base_click_tracking_url c)
            \<and> startswith link (the (base_click_tracking_url c)))"
  by (auto simp: valid_link_def valid_scheme_def scheme_ok_def Let_def)

lemma not_scheme:
  "startswith link ''mailto:'' \<or> startswith link ''javascript:'' \<or> startswith link ''#''
     \<or> startswith link ''/a'' \<or> startswith link ''a''
   \<Longrightarrow> \<not> scheme_ok link"
  by (auto simp: scheme_ok_def startswith_def prefix_def)

lemma replace_links_rewrites:
  "replace_links L h clock n extra conf tree = Inr out \<Longrightarrow>
     length out = length tree
     \<and> (\<forall>i < length tree.
           fst (out ! i) = fst (tree ! i) \<and> fst (snd (out ! i)) = fst (snd (tree ! i))
           \<and> (to_rewrite h conf (tree ! i) \<longrightarrow>
                 pytracking_get_click_tracking_url L h
                    (fst (clock (n + length (filter (to_rewrite h conf) (take i tree)))))
                    (snd (clock (n + length (filter (to_rewrite h conf) (take i tree)))))
                    (Some (snd (snd (tree ! i)))) extra (Some conf) []
                  = Inr (snd (snd (out ! i))))
           \<and> (\<not> to_rewrite h conf (tree ! i) \<longrightarrow> out ! i = tree ! i))"
proof (induction tree arbitrary: n out)
  case Nil
  then show ?case by simp
next
  case (Cons x tree)
  obtain tag attribute link where x: "x = (tag, attribute, link)" by (cases x)
  show ?case
  proof (cases "to_rewrite h conf x")
    case True
    then have t: "tag = ''a'' \<and> attribute = ''href'' \<and> valid_link link (Some (deref h conf))"
      by (simp add: to_rewrite_def x)
    with Cons.prems x obtain new_link rest' where
      u: "pytracking_get_click_tracking_url L h (fst (clock n)) (snd (clock n))
            (Some link) extra (Some conf) [] = Inr new_link"
      and r: "replace_links L h clock (Suc n) extra conf tree = Inr rest'"
        "out = (tag, attribute, new_link) # rest'"
      by (auto split: sum.splits)
    note IH = Cons.IH [OF r(1)]
    show ?thesis
    proof (intro conjI allI impI)
      show "length out = length (x # tree)" using IH by (simp add: r(2))
    next
      fix i assume i: "i < length (x # tree)"
      show "fst (out ! i) = fst ((x # tree) ! i)"
        using IH i by (cases i) (simp_all add: r(2) x)
      show "fst (snd (out ! i)) = fst (snd ((x # tree) ! i))"
        using IH i by (cases i) (simp_all add: r(2) x)
      show "pytracking_get_click_tracking_url L h
              (fst (clock (n + length (filter (to_rewrite h conf) (take i (x # tree))))))
              (snd (clock (n + length (filter (to_rewrite h conf) (take i (x # tree))))))
              (Some (snd (snd ((x # tree) ! i)))) extra (Some conf) []
            = Inr (snd (snd (out ! i)))"
        if "to_rewrite h conf ((x # tree) ! i)"
      proof (cases i)
        case 0
        then show ?thesis using u by (simp add: r(2) x)
      next
        case (Suc j)
        with i that have "j < length tree" "to_rewrite h conf (tree ! j)" by simp_all
        with IH have "pytracking_get_click_tracking_url L h
              (fst (clock (Suc n + length (filter (to_rewrite h conf) (take j tree)))))
              (snd (clock (Suc n + length (filter (to_rewrite h conf) (take j tree)))))
              (Some (snd (snd (tree ! j)))) extra (Some conf) [] = Inr (snd (snd (rest' ! j)))"
          by blast
        then show ?thesis using True by (simp add: Suc r(2))
      qed
      show "out ! i = (x # tree) ! i" if "\<not> to_rewrite h conf ((x # tree) ! i)"
      proof (cases i)
        case 0
        with that True show ?thesis by simp
      next
        case (Suc j)
        with i that have "j < length tree" "\<not> to_rewrite h conf (tree ! j)" by simp_all
        with IH have "rest' ! j = tree ! j" by blast
        then show ?thesis by (simp add: Suc r(2))
      qed
    qed
  next
    case False
    then have t: "\<not> (tag = ''a'' \<and> attribute = ''href'' \<and> valid_link link (Some (deref h conf)))"
      by (simp add: to_rewrite_def x)
    with Cons.prems x obtain rest' where
      r: "replace_links L h clock n extra conf tree = Inr rest'"
        "out = (tag, attribute, link) # rest'"
      by (auto split: sum.splits)
    note IH = Cons.IH [OF r(1)]
    show ?thesis
    proof (intro conjI allI impI)
      show "length out = length (x # tree)" using IH by (simp add: r(2))
    next
      fix i assume i: "i < length (x # tree)"
      show "fst (out ! i) = fst ((x # tree) ! i)"
        using IH i by (cases i) (simp_all add: r(2) x)
      show "fst (snd (out ! i)) = fst (snd ((x # tree) ! i))"
        using IH i by (cases i) (simp_all add: r(2) x)
      show "pytracking_get_click_tracking_url L h
              (fst (clock (n + length (filter (to_rewrite h conf) (take i (x # tree))))))
              (snd (clock (n + length (filter (to_rewrite h conf) (take i (x # tree))))))
              (Some (snd (snd ((x # tree) ! i)))) extra (Some conf) []
            = Inr (snd (snd (out ! i)))"
        if "to_rewrite h conf ((x # tree) ! i)"
      proof (cases i)
        case 0
        with that False show ?thesis by simp
      next
        case (Suc j)
        with i that have "j < length tree" "to_rewrite h conf (tree ! j)" by simp_all
        with IH have "pytracking_get_click_tracking_url L h
              (fst (clock (n + length (filter (to_rewrite h conf) (take j tree)))))
              (snd (clock (n + length (filter (to_rewrite h conf) (take j tree)))))
              (Some (snd (snd (tree ! j)))) extra (Some conf) [] = Inr (snd (snd (rest' ! j)))"
          by blast
        then show ?thesis using False by (simp add: Suc r(2))
      qed
      show "out ! i = (x # tree) ! i" if "\<not> to_rewrite h conf ((x # tree) ! i)"
      proof (cases i)
        case 0
        then show ?thesis by (simp add: r(2) x)
      next
        case (Suc j)
        with i that have "j < length tree" "\<not> to_rewrite h conf (tree ! j)" by simp_all
        with IH have "rest' ! j = tree ! j" by blast
        then show ?thesis by (simp add: Suc r(2))
      qed
    qed
  qed
qed

lemma example_token:
  "urlsafe_b64encode (py_dumps (JObj [(''url'', JStr ''https://example.com'')]))
     = ''eyJ1cmwiOiAiaHR0cHM6Ly9leGFtcGxlLmNvbSJ9''"
  by code_simp


lemma example_click_config:
  "get_click_tracking_url py_lib example_config now iv (Some ''https://example.com'') None
     = Inr ''https://t.example/c/eyJ1cmwiOiAiaHR0cHM6Ly9leGFtcGxlLmNvbSJ9''"
proof -
  let ?p = "[(''url'', JStr ''https://example.com'')]"
  have c: "encryption_key example_config = None" "encoding example_config = ''utf-8''"
    "base_click_tracking_url example_config = Some ''https://t.example/c/''"
    "\<not> append_slash example_config"
    by (simp_all add: example_config_def default_attributes_def)
  have p: "get_data_to_embed example_config (Some ''https://example.com'') None = ?p"
    by (simp add: get_data_to_embed_def example_config_def default_attributes_def
        dict_update_def truthy_str_def truthy_dict_def Let_def)
  have t: "token_of py_lib example_config now iv ?p = ''eyJ1cmwiOiAiaHR0cHM6Ly9leGFtcGxlLmNvbSJ9''"
    using c(1) by (simp add: token_of_def py_lib_simps example_token del: py_dumps.simps urlsafe_b64encode.simps)
  have a: "is_ascii (py_dumps (JObj ?p))" by code_simp
  have tj: "transparent py_lib (encoding example_config) (json_dumps py_lib (JObj ?p))"
    unfolding c(2) py_lib_simps by (rule py_lib_transparent) (simp_all only: a simp_thms)
  have tt: "transparent py_lib (encoding example_config) (token_of py_lib example_config now iv ?p)"
    unfolding c(2) t by (rule py_lib_transparent) (simp_all add: is_ascii_def)
  have e: "get_url_encoded_data_str py_lib example_config now iv ?p
       = Inr ''eyJ1cmwiOiAiaHR0cHM6Ly9leGFtcGxlLmNvbSJ9''"
    using encode_token [OF tj tt] by (simp only: t)
  have j: "py_urljoin (Some ''https://t.example/c/'') ''eyJ1cmwiOiAiaHR0cHM6Ly9leGFtcGxlLmNvbSJ9''
      = Inr ''https://t.example/c/eyJ1cmwiOiAiaHR0cHM6Ly9leGFtcGxlLmNvbSJ9''"
    by code_simp
  show ?thesis
    unfolding get_click_tracking_url_def Let_def p e
    by (simp only: sum.case get_click_tracking_url_from_data_str_def c py_lib_simps j if_False)
qed

lemma example_click_url:
  "pytracking_get_click_tracking_url py_lib example_heap now iv (Some ''https://example.com'')
      None (Some 0) []
     = Inr ''https://t.example/c/eyJ1cmwiOiAiaHR0cHM6Ly9leGFtcGxlLmNvbSJ9''"
proof -
  have self: "objs example_heap 0 = Some example_config" by (simp add: example_heap_def)
  have lt: "0 < next_obj example_heap" by (simp add: example_heap_def)
  have k: "\<not> truthy_str (encryption_bytestring_key example_config)"
    "example_config\<lparr>encryption_key := None\<rparr> = example_config"
    by (simp_all add: example_config_def default_attributes_def truthy_str_def)
  have g: "get_configuration py_lib example_heap (Some 0) [] =
      Inr (next_obj example_heap,
           example_heap\<lparr>objs := (objs example_heap)(next_obj example_heap \<mapsto> example_config),
                         next_obj := Suc (next_obj example_heap)\<rparr>)"
    unfolding get_configuration_def option.case merge_eq [OF self lt, of "[]" py_lib, simplified]
    using k by simp
  show ?thesis
    unfolding pytracking_get_click_tracking_url_def g
    by (simp add: deref_def example_click_config)
qed


lemma mailto_not_valid: "\<not> valid_link ''mailto:x@y.com'' (Some c)"
  by (simp add: valid_link_eq scheme_ok_def startswith_def)

text \<open>
  Claim C8, as amended. An anchor \<open>href\<close> qualifies for rewriting exactly when it
  starts with \<open>http://\<close>, \<open>https://\<close> or \<open>//\<close> and, if \<open>base_click_tracking_url\<close>
  is a non-empty string, does not start with it. Relative links, \<open>mailto:\<close>,
  \<open>javascript:\<close> and fragment links never qualify. When \<open>_replace_links\<close> returns,
  the document has the same elements and attributes; the \<open>href\<close> of every
  anchor that qualifies is the URL that \<open>get_click_tracking_url\<close> returned for
  its link, and every other link is as it was. \<open>mailto:x@y.com\<close> is never
  rewritten; with the base \<open>https://t.example/c/\<close>, \<open>https://example.com\<close> is
  rewritten (to the base followed by the base64 of \<open>{"url": "https://example.com"}\<close>)
  and \<open>https://t.example/c/xyz\<close> is left unchanged.
\<close>

theorem link_filter:
  "(valid_link link (Some c) \<longleftrightarrow>
      scheme_ok link
      \<and> \<not> (truthy_str (base_click_tracking_url c)
             \<and> startswith link (the (base_click_tracking_url c))))
   \<and> (startswith link ''mailto:'' \<or> startswith link ''javascript:'' \<or> startswith link ''#''
        \<or> \<not> scheme_ok link \<longrightarrow> \<not> valid_link link (Some c))
   \<and> (replace_links L h clock n extra conf tree = Inr out \<longrightarrow>
        length out = length tree
        \<and> (\<forall>i < length tree.
              fst (out ! i) = fst (tree ! i) \<and> fst (snd (out ! i)) = fst (snd (tree ! i))
              \<and> (to_rewrite h conf (tree ! i) \<longrightarrow>
                    pytracking_get_click_tracking_url L h
                       (fst (clock (n + length (filter (to_rewrite h conf) (take i tree)))))
                       (snd (clock (n + length (filter (to_rewrite h conf) (take i tree)))))
                       (Some (snd (snd (tree ! i)))) extra (Some conf) []
                     = Inr (snd (snd (out ! i))))
              \<and> (\<not> to_rewrite h conf (tree ! i) \<longrightarrow> out ! i = tree ! i)))
   \<and> \<not> valid_link ''mailto:x@y.com'' (Some c)
   \<and> valid_link ''https://example.com'' (Some example_config)
   \<and> \<not> valid_link ''https://t.example/c/xyz'' (Some example_config)
   \<and> replace_links L h clock n extra conf [(''a'', ''href'', ''mailto:x@y.com'')]
       = Inr [(''a'', ''href'', ''mailto:x@y.com'')]
   \<and> replace_links py_lib example_heap clock n None 0 [(''a'', ''href'', ''https://example.com'')]
       = Inr [(''a'', ''href'', ''https://t.example/c/eyJ1cmwiOiAiaHR0cHM6Ly9leGFtcGxlLmNvbSJ9'')]
   \<and> replace_links py_lib example_heap clock n extra 0
        [(''a'', ''href'', ''https://t.example/c/xyz'')]
       = Inr [(''a'', ''href'', ''https://t.example/c/xyz'')]"
proof -
  have 1: "valid_link link (Some c) \<longleftrightarrow>
      scheme_ok link
      \<and> \<not> (truthy_str (base_click_tracking_url c)
             \<and> startswith link (the (base_click_tracking_url c)))"
    by (rule valid_link_eq)
  have 2: "startswith link ''mailto:'' \<or> startswith link ''javascript:'' \<or> startswith link ''#''
        \<or> \<not> scheme_ok link \<longrightarrow> \<not> valid_link link (Some c)"
    using not_scheme [of link] by (auto simp: valid_link_eq)
  have 3: "replace_links L h clock n extra conf tree = Inr out \<longrightarrow>
        length out = length tree
        \<and> (\<forall>i < length tree.
              fst (out ! i) = fst (tree ! i) \<and> fst (snd (out ! i)) = fst (snd (tree ! i))
              \<and> (to_rewrite h conf (tree ! i) \<longrightarrow>
                    pytracking_get_click_tracking_url L h
                       (fst (clock (n + length (filter (to_rewrite h conf) (take i tree)))))
                       (snd (clock (n + length (filter (to_rewrite h conf) (take i tree)))))
                       (Some (snd (snd (tree ! i)))) extra (Some conf) []
                     = Inr (snd (snd (out ! i))))
              \<and> (\<not> to_rewrite h conf (tree ! i) \<longrightarrow> out ! i = tree ! i))"
    by (rule impI) (rule replace_links_rewrites)
  have 4: "\<not> valid_link ''mailto:x@y.com'' (Some c)"
    by (rule mailto_not_valid)
  have 5: "valid_link ''https://example.com'' (Some example_config)"
    by (simp add: valid_link_eq scheme_ok_def startswith_def example_config_def
          default_attributes_def truthy_str_def)
  have 6: "\<not> valid_link ''https://t.example/c/xyz'' (Some example_config)"
    by (simp add: valid_link_eq scheme_ok_def startswith_def example_config_def
          default_attributes_def truthy_str_def)
  have d: "deref example_heap 0 = example_config"
    by (simp add: deref_def example_heap_def)
  have 7: "replace_links L h clock n extra conf [(''a'', ''href'', ''mailto:x@y.com'')]
       = Inr [(''a'', ''href'', ''mailto:x@y.com'')]"
    by (simp add: mailto_not_valid)
  have 8: "replace_links py_lib example_heap clock n None 0 [(''a'', ''href'', ''https://example.com'')]
       = Inr [(''a'', ''href'', ''https://t.example/c/eyJ1cmwiOiAiaHR0cHM6Ly9leGFtcGxlLmNvbSJ9'')]"
    using 5 by (simp add: d example_click_url)
  have 9: "replace_links py_lib example_heap clock n extra 0
        [(''a'', ''href'', ''https://t.example/c/xyz'')]
       = Inr [(''a'', ''href'', ''https://t.example/c/xyz'')]"
    using 6 by (simp add: d)
  from 1 2 3 4 5 6 7 8 9 show ?thesis by blast
qed

theorem link_filter_witness:
  "replace_links py_lib example_heap (\<lambda>n. (0, [])) 0 None 0 example_tree
     = Inr [(''a'', ''href'', ''mailto:x@y.com''), (''img'', ''src'', ''https://example.com/x.png''),
            (''a'', ''href'', ''https://t.example/c/xyz''),
            (''a'', ''href'', ''https://t.example/c/eyJ1cmwiOiAiaHR0cHM6Ly9leGFtcGxlLmNvbSJ9'')]
   \<and> startswith ''mailto:x@y.com'' ''mailto:''
   \<and> \<not> valid_link ''mailto:x@y.com'' (Some example_config)
   \<and> \<not> to_rewrite example_heap 0 (example_tree ! 0)
   \<and> to_rewrite example_heap 0 (example_tree ! 3)
   \<and> pytracking_get_click_tracking_url py_lib example_heap 0 [] (Some ''https://example.com'')
        None (Some 0) []
       = Inr ''https://t.example/c/eyJ1cmwiOiAiaHR0cHM6Ly9leGFtcGxlLmNvbSJ9''"
proof -
  let ?out = "[(''a'', ''href'', ''mailto:x@y.com''), (''img'', ''src'', ''https://example.com/x.png''),
            (''a'', ''href'', ''https://t.example/c/xyz''),
            (''a'', ''href'', ''https://t.example/c/eyJ1cmwiOiAiaHR0cHM6Ly9leGFtcGxlLmNvbSJ9'')]"
  note t = link_filter [of "''mailto:x@y.com''" example_config py_lib example_heap
        "\<lambda>n. (0, [])" 0 None 0 example_tree ?out]
  have d: "deref example_heap 0 = example_config"
    by (simp add: deref_def example_heap_def)
  from t have v: "\<not> valid_link ''mailto:x@y.com'' (Some example_config)"
    and w: "\<not> valid_link ''https://t.example/c/xyz'' (Some example_config)"
    and q: "valid_link ''https://example.com'' (Some example_config)"
    by blast+
  have r: "replace_links py_lib example_heap (\<lambda>n. (0, [])) 0 None 0 example_tree = Inr ?out"
    using v w q by (simp add: example_tree_def d example_click_url)
  have n0: "\<not> to_rewrite example_heap 0 (example_tree ! 0)"
    using v by (simp add: to_rewrite_def example_tree_def d)
  have y3: "to_rewrite example_heap 0 (example_tree ! 3)"
    using q by (simp add: to_rewrite_def example_tree_def d)
  from t r have a: "\<forall>i < length example_tree.
      to_rewrite example_heap 0 (example_tree ! i) \<longrightarrow>
        pytracking_get_click_tracking_url py_lib example_heap 0 []
          (Some (snd (snd (example_tree ! i)))) None (Some 0) [] = Inr (snd (snd (?out ! i)))"
    by simp
  from a [rule_format, of 3] y3 have u: "pytracking_get_click_tracking_url py_lib example_heap 0 []
      (Some ''https://example.com'') None (Some 0) []
       = Inr ''https://t.example/c/eyJ1cmwiOiAiaHR0cHM6Ly9leGFtcGxlLmNvbSJ9''"
    by (simp add: example_tree_def)
  show ?thesis using r v n0 y3 u by (simp add: startswith_def)
qed

text \<open>
  Claim C8 as stated fails for the base URL \<open>""\<close>: every link starts with it, and
  \<open>https://example.com\<close> qualifies all the same, since an empty base URL is not
  tested at all.
\<close>

theorem link_filter_empty_base_counterexample:
  "\<not> (valid_link ''https://example.com''
         (Some (default_attributes\<lparr>base_click_tracking_url := Some []\<rparr> :: pybytes configuration))
       \<longleftrightarrow> scheme_ok ''https://example.com'' \<and> \<not> startswith ''https://example.com'' [])"
  by (simp add: valid_link_eq scheme_ok_def startswith_def default_attributes_def truthy_str_def)

section \<open>Extracting the encoded segment\<close>













section \<open>Errors of decoding and of key material\<close>

















section \<open>Mismatched keys\<close>

lemma utf8_rejects_version_byte: "utf8_decode (CHR 0x80 # body) = Inl UnicodeError"
  by simp

















end
